theory Spec2Isabelle
  imports Main "HOL-Library.AList"
begin

section \<open>JavaScript values\<close>

text \<open>
  The values that flow through the gateway are JSON documents: decoded token payloads,
  request and response bodies, and the objects that are serialised into WebSocket frames.
  A property that is absent from an object reads as \<open>JUndefined\<close>, as in JavaScript.
  An object lists its properties in insertion order, each key once. Numbers are the
  integer-valued ones (user ids, status codes, counters) that JavaScript holds exactly,
  of magnitude below \<open>2^53\<close>.
\<close>

datatype json =
    JUndefined
  | JNull
  | JBool bool
  | JNum int
  | JStr string
  | JArr "json list"
  | JObj "(string \<times> json) list"

text \<open>Truthiness, as used by \<open>!x\<close>, \<open>x || y\<close>, \<open>x && y\<close> and \<open>if (x)\<close>.\<close>

fun truthy :: "json \<Rightarrow> bool" where
  "truthy JUndefined = False"
| "truthy JNull = False"
| "truthy (JBool b) = b"
| "truthy (JNum n) = (n \<noteq> 0)"
| "truthy (JStr s) = (s \<noteq> [])"
| "truthy (JArr xs) = True"
| "truthy (JObj kvs) = True"

text \<open>\<open>a || b\<close>: the left operand when it is truthy, the right operand otherwise.\<close>

definition js_or :: "json \<Rightarrow> json \<Rightarrow> json" where
  "js_or a b = (if truthy a then a else b)"

text \<open>
  Property read \<open>v.k\<close>. Reading a property of \<open>null\<close> or \<open>undefined\<close> throws a
  TypeError, which is what \<open>nullish\<close> tests; every call of \<open>field\<close> below stands
  behind that test. On any other value the read answers, with \<open>undefined\<close> when the
  value has no such property. The property names read by the gateway (\<open>userId\<close>,
  \<open>id\<close>, \<open>user_id\<close>, \<open>type\<close>, ...) are not properties of strings, numbers,
  booleans or arrays.
\<close>

definition nullish :: "json \<Rightarrow> bool" where
  "nullish v = (v = JUndefined \<or> v = JNull)"

fun field :: "json \<Rightarrow> string \<Rightarrow> json" where
  "field (JObj kvs) k = (case map_of kvs k of None \<Rightarrow> JUndefined | Some v \<Rightarrow> v)"
| "field v k = JUndefined"

text \<open>Optional chaining \<open>v?.k\<close>: \<open>undefined\<close> when \<open>v\<close> is \<open>null\<close> or \<open>undefined\<close>.\<close>

definition opt_field :: "json \<Rightarrow> string \<Rightarrow> json" where
  "opt_field v k = (if nullish v then JUndefined else field v k)"

text \<open>Decimal rendering of an integer, as \<open>Number.prototype.toString\<close> gives it.\<close>

definition digit_char :: "nat \<Rightarrow> char" where
  "digit_char d = ''0123456789'' ! d"

fun nat_digits :: "nat \<Rightarrow> string" where
  "nat_digits n = (if n < 10 then [digit_char n] else nat_digits (n div 10) @ [digit_char (n mod 10)])"

declare nat_digits.simps [simp del]

definition int_digits :: "int \<Rightarrow> string" where
  "int_digits i = (if i < 0 then CHR ''-'' # nat_digits (nat (- i)) else nat_digits (nat i))"

fun join_comma :: "string list \<Rightarrow> string" where
  "join_comma [] = []"
| "join_comma [s] = s"
| "join_comma (s # t # ss) = s @ CHR '','' # join_comma (t # ss)"

text \<open>
  \<open>String(v)\<close>. An array renders as its elements joined by commas, with \<open>null\<close> and
  \<open>undefined\<close> elements rendered empty; a plain object renders as
  \<open>[object Object]\<close>.
\<close>

fun String_js :: "json \<Rightarrow> string" where
  "String_js JUndefined = ''undefined''"
| "String_js JNull = ''null''"
| "String_js (JBool b) = (if b then ''true'' else ''false'')"
| "String_js (JNum n) = int_digits n"
| "String_js (JStr s) = s"
| "String_js (JArr xs) =
     join_comma (map (\<lambda>x. if x = JUndefined \<or> x = JNull then [] else String_js x) xs)"
| "String_js (JObj kvs) = ''[object Object]''"

text \<open>
  \<open>v.toString()\<close> on a value that is neither \<open>null\<close> nor \<open>undefined\<close> (where it
  throws). Every call below is on a value that has just passed a truthiness test.
  The rendering is JavaScript's on the values described above: a number of magnitude
  \<open>10^21\<close> or more would print in exponent form, and an object that carries a
  property of its own named \<open>toString\<close> would make the call throw; neither is a value
  of this model.
\<close>

definition toString :: "json \<Rightarrow> string" where
  "toString v = String_js v"

text \<open>String helpers: \<open>s.startsWith(p)\<close>, \<open>s.split(sep)\<close> for a one-character
  separator, and \<open>s.toLowerCase()\<close> on ASCII text.\<close>

definition startsWith :: "string \<Rightarrow> string \<Rightarrow> bool" where
  "startsWith s p = (take (length p) s = p)"

fun split_js :: "char \<Rightarrow> string \<Rightarrow> string list" where
  "split_js sep [] = [[]]"
| "split_js sep (c # cs) =
     (if c = sep then [] # split_js sep cs
      else (case split_js sep cs of [] \<Rightarrow> [[c]] | w # ws \<Rightarrow> (c # w) # ws))"

definition lower_char :: "char \<Rightarrow> char" where
  "lower_char c =
     (case map_of (zip ''ABCDEFGHIJKLMNOPQRSTUVWXYZ'' ''abcdefghijklmnopqrstuvwxyz'') c of
        None \<Rightarrow> c
      | Some l \<Rightarrow> l)"

definition toLowerCase :: "string \<Rightarrow> string" where
  "toLowerCase s = map lower_char s"

section \<open>Start-up: the signing secret\<close>

text \<open>
  \<open>process.env.JWT_SECRET\<close> is a string or \<open>undefined\<close> (\<open>None\<close>). The gateway
  (gateway.js lines 19-24 in both of its versions, and echo (1).js lines 19-24) exits
  with code 1 when \<open>!JWT_SECRET\<close>; echo.js (line 18) takes
  \<open>process.env.JWT_SECRET || 'echo-secret-key-change-in-production'\<close>.
\<close>

datatype startup = Exit nat | Listening string

definition startup_gateway :: "string option \<Rightarrow> startup" where
  "startup_gateway env_JWT_SECRET =
     (case env_JWT_SECRET of
        None \<Rightarrow> Exit 1
      | Some s \<Rightarrow> if s = [] then Exit 1 else Listening s)"

definition JWT_SECRET_echo :: "string option \<Rightarrow> string" where
  "JWT_SECRET_echo env_JWT_SECRET =
     (case env_JWT_SECRET of
        None \<Rightarrow> ''echo-secret-key-change-in-production''
      | Some s \<Rightarrow> if s = [] then ''echo-secret-key-change-in-production'' else s)"

definition startup_echo :: "string option \<Rightarrow> startup" where
  "startup_echo env_JWT_SECRET = Listening (JWT_SECRET_echo env_JWT_SECRET)"

section \<open>Requests, responses and the token library\<close>

text \<open>
  An inbound request as the handlers read it. \<open>headers\<close> has the lower-cased header
  names Node gives; \<open>user\<close> is \<open>req.user\<close>, \<open>undefined\<close> until \<open>authenticate\<close>
  sets it. \<open>req.path\<close> is the part of the URL before the query string, and
  \<open>req.query\<close> is kept as the raw text after the question mark.
\<close>

record request =
  http_method :: string
  originalUrl :: string
  headers :: "(string \<times> string) list"
  body :: json
  user :: json

definition req_path :: "request \<Rightarrow> string" where
  "req_path req = takeWhile (\<lambda>c. c \<noteq> CHR ''?'') (originalUrl req)"

definition req_query :: "request \<Rightarrow> string" where
  "req_query req = drop 1 (dropWhile (\<lambda>c. c \<noteq> CHR ''?'') (originalUrl req))"

text \<open>
  The call \<open>res.status(s).json(v)\<close>: the response has status \<open>s\<close> and its body is
  \<open>JSON.stringify(v)\<close>, sent as \<open>application/json\<close>. Every response of the
  gateway is sent this way, so a body is relayed as a JSON document, never as raw text.
\<close>

record http_response =
  res_status :: nat
  res_json :: json

text \<open>
  \<open>jwt.verify(token, secret)\<close> belongs to the jsonwebtoken library; the handlers take
  it as a parameter. It returns the decoded payload or throws. \<open>TypeError\<close> is what a
  property read on \<open>null\<close> throws inside the same \<open>try\<close> block.
\<close>

datatype js_error = TokenExpiredError | JsonWebTokenError | NotBeforeError | TypeError

type_synonym jwt_verify = "string \<Rightarrow> string \<Rightarrow> js_error + json"

text \<open>
  Deployment configuration read once at start-up. \<open>PYTHON_BACKEND\<close> is a well-formed
  URL and \<open>PYTHON_BACKEND_host\<close> is \<open>new URL(PYTHON_BACKEND).host\<close>.
\<close>

record config =
  JWT_SECRET :: string
  PYTHON_BACKEND :: string
  PYTHON_BACKEND_host :: string

section \<open>The authentication middleware\<close>

text \<open>
  \<open>authenticate(req, res, next)\<close> either calls \<open>next()\<close>, possibly after setting
  \<open>req.user\<close>, or sends a response and returns.
\<close>

datatype auth_outcome = Next request | Responded http_response

definition no_token_response :: http_response where
  "no_token_response =
     \<lparr>res_status = 401,
      res_json = JObj [(''success'', JBool False),
                       (''error'', JStr ''Access denied. No token provided.''),
                       (''code'', JStr ''NO_TOKEN'')]\<rparr>"

text \<open>The \<open>catch\<close> block of the gateway's \<open>authenticate\<close> (all three copies).\<close>

definition auth_catch :: "js_error \<Rightarrow> http_response" where
  "auth_catch e =
     (let isExpired = (e = TokenExpiredError) in
      \<lparr>res_status = 401,
       res_json = JObj [(''success'', JBool False),
                        (''error'', JStr (if isExpired then ''Token expired. Please login again.''
                                          else ''Invalid token.'')),
                        (''code'', JStr (if isExpired then ''TOKEN_EXPIRED''
                                         else ''INVALID_TOKEN''))]\<rparr>)"

text \<open>
  \<open>jwt.verify(authHeader.split(' ')[1], JWT_SECRET)\<close>. The second piece exists whenever
  the header contains a space; \<open>jwt.verify(undefined, ...)\<close> throws a JsonWebTokenError.
\<close>

definition verify_bearer :: "jwt_verify \<Rightarrow> string \<Rightarrow> string \<Rightarrow> js_error + json" where
  "verify_bearer verify authHeader secret =
     (case split_js CHR '' '' authHeader of
        _ # token # _ \<Rightarrow> verify token secret
      | _ \<Rightarrow> Inl JsonWebTokenError)"

subsection \<open>gateway.js, version 1.1 (lines 42-94)\<close>

definition publicPaths_v11 :: "string list" where
  "publicPaths_v11 = [''/auth/login'', ''/auth/register'', ''/health'', ''/'']"

definition isPublic_v11 :: "string \<Rightarrow> bool" where
  "isPublic_v11 requestPath = (requestPath \<in> set publicPaths_v11)"

definition invalid_format_response :: http_response where
  "invalid_format_response =
     \<lparr>res_status = 401,
      res_json = JObj [(''success'', JBool False),
                       (''error'', JStr ''Invalid token format''),
                       (''code'', JStr ''INVALID_TOKEN'')]\<rparr>"

definition authenticate_v11 :: "jwt_verify \<Rightarrow> string \<Rightarrow> request \<Rightarrow> auth_outcome" where
  "authenticate_v11 verify secret req =
     (if isPublic_v11 (req_path req) then Next req
      else
        (case map_of (headers req) ''authorization'' of
           None \<Rightarrow> Responded no_token_response
         | Some authHeader \<Rightarrow>
             if authHeader = [] \<or> \<not> startsWith authHeader ''Bearer ''
             then Responded no_token_response
             else
               (case verify_bearer verify authHeader secret of
                  Inl e \<Rightarrow> Responded (auth_catch e)
                | Inr decoded \<Rightarrow>
                    if nullish decoded then Responded (auth_catch TypeError)
                    else if \<not> truthy (field decoded ''userId'') \<and> \<not> truthy (field decoded ''id'')
                            \<and> \<not> truthy (field decoded ''user_id'')
                    then Responded invalid_format_response
                    else Next (req\<lparr>user :=
                      JObj [(''id'', js_or (js_or (field decoded ''userId'') (field decoded ''id''))
                                          (field decoded ''user_id'')),
                            (''email'', field decoded ''email''),
                            (''role'', field decoded ''role''),
                            (''schoolId'', field decoded ''schoolId'')]\<rparr>))))"

subsection \<open>echo (1).js, version 1.0 (lines 42-91)\<close>

definition publicPaths_v10 :: "string list" where
  "publicPaths_v10 = [''/auth/login'', ''/auth/register'', ''/health'', ''/'']"

definition authenticate_v10 :: "jwt_verify \<Rightarrow> string \<Rightarrow> request \<Rightarrow> auth_outcome" where
  "authenticate_v10 verify secret req =
     (if req_path req \<in> set publicPaths_v10 then Next req
      else
        (case map_of (headers req) ''authorization'' of
           None \<Rightarrow> Responded no_token_response
         | Some authHeader \<Rightarrow>
             if authHeader = [] \<or> \<not> startsWith authHeader ''Bearer ''
             then Responded no_token_response
             else
               (case verify_bearer verify authHeader secret of
                  Inl e \<Rightarrow> Responded (auth_catch e)
                | Inr decoded \<Rightarrow>
                    if nullish decoded then Responded (auth_catch TypeError)
                    else if \<not> truthy (field decoded ''userId'') \<and> \<not> truthy (field decoded ''id'')
                            \<and> \<not> truthy (field decoded ''user_id'')
                    then Responded invalid_format_response
                    else Next (req\<lparr>user :=
                      JObj [(''id'', js_or (js_or (field decoded ''userId'') (field decoded ''id''))
                                          (field decoded ''user_id'')),
                            (''email'', field decoded ''email''),
                            (''role'', field decoded ''role''),
                            (''schoolId'', field decoded ''schoolId'')]\<rparr>))))"

subsection \<open>gateway.js, version 1.4 (lines 413-455)\<close>

definition publicPaths_v14 :: "string list" where
  "publicPaths_v14 = [''/login'', ''/register'', ''/health'', ''/'']"

definition isPublic_v14 :: "string \<Rightarrow> bool" where
  "isPublic_v14 path =
     (let requestPath = toLowerCase path in
      requestPath \<in> set publicPaths_v14 \<or> startsWith requestPath ''/health'')"

definition authenticate_v14 :: "jwt_verify \<Rightarrow> string \<Rightarrow> request \<Rightarrow> auth_outcome" where
  "authenticate_v14 verify secret req =
     (if isPublic_v14 (req_path req) then Next req
      else
        (case map_of (headers req) ''authorization'' of
           None \<Rightarrow> Responded no_token_response
         | Some authHeader \<Rightarrow>
             if authHeader = [] \<or> \<not> startsWith authHeader ''Bearer ''
             then Responded no_token_response
             else
               (case verify_bearer verify authHeader secret of
                  Inl e \<Rightarrow> Responded (auth_catch e)
                | Inr decoded \<Rightarrow>
                    if nullish decoded then Responded (auth_catch TypeError)
                    else Next (req\<lparr>user :=
                      JObj [(''id'', js_or (js_or (field decoded ''user_id'') (field decoded ''userId''))
                                          (field decoded ''id'')),
                            (''email'', field decoded ''email''),
                            (''role'', field decoded ''role''),
                            (''schoolId'', js_or (field decoded ''school_id'')
                                                (field decoded ''schoolId''))]\<rparr>))))"

section \<open>The upstream call\<close>

text \<open>
  The forwarders reach the backend through the axios client, which is not part of this
  repository. What matters of it here is its contract: for a call with options
  \<open>timeout\<close> (milliseconds, 0 for none), \<open>maxRedirects\<close> (5 unless the caller says
  otherwise) and \<open>validateStatus\<close>, the promise
  \<^item> takes as \<open>response.data\<close> the parsed value of a body that is a JSON document and
    the text itself, as a string, of a body that is not;
  \<^item> when \<open>maxRedirects\<close> is not 0, follows a response with a status from 300 to 399
    and a \<open>Location\<close> header: it requests the location and goes on with the answer
    to that request, and rejects once more than \<open>maxRedirects\<close> redirects have come
    in a row; with \<open>maxRedirects: 0\<close> such a response is a response like any other;
  \<^item> resolves with the status and data of the final response when
    \<open>validateStatus(status)\<close> holds, and rejects with an error carrying the response
    when it does not hold;
  \<^item> rejects with an error whose \<open>code\<close> is \<open>ECONNABORTED\<close> when a timeout is set
    and the upstream has not answered when it expires, and never settles when no
    timeout is set and the upstream never answers;
  \<^item> rejects with the transport's error code (\<open>ECONNREFUSED\<close>, \<open>ENOTFOUND\<close>,
    \<open>ECONNRESET\<close>, ...) and no response when the connection fails.
  The upstream itself is an arbitrary function from the outbound call to what it does.
\<close>

record axios_request =
  ax_method :: string
  ax_url :: string
  ax_data :: json
  ax_params :: string
  ax_headers :: "(string \<times> json) list"
  ax_timeout :: nat
  ax_maxRedirects :: nat
  ax_validateStatus :: "nat \<Rightarrow> bool"

record axios_error =
  error_code :: "string option"
  error_response :: "(nat \<times> json) option"
  error_message :: string

text \<open>
  A body on the wire is a JSON document, given by the value it parses to, or text that
  is not JSON (the empty body included).
\<close>

datatype wire_body = JsonBody json | TextBody string

definition response_data :: "wire_body \<Rightarrow> json" where
  "response_data b = (case b of JsonBody v \<Rightarrow> v | TextBody t \<Rightarrow> JStr t)"

text \<open>
  What the upstream does with a request:
  \<^item> \<open>Replies s v\<close>: it answers with status \<open>s\<close>, no \<open>Location\<close> header and a body
    that is the JSON document \<open>v\<close>;
  \<^item> \<open>RepliesText s t\<close>: the same with a body \<open>t\<close> that is not JSON;
  \<^item> \<open>Redirects s loc b next\<close>: it answers with status \<open>s\<close>, the header
    \<open>Location: loc\<close> and body \<open>b\<close>, and \<open>next\<close> is what happens to the request
    that a client following the redirect sends to \<open>loc\<close>;
  \<^item> \<open>NoReply\<close>: it never answers;
  \<^item> \<open>Fails code message\<close>: the connection fails with that error.
\<close>

datatype upstream =
    Replies nat json
  | RepliesText nat string
  | Redirects nat string wire_body upstream
  | NoReply
  | Fails string string

datatype axios_result = Resolved nat json | Rejected axios_error | Pending

type_synonym backend = "axios_request \<Rightarrow> upstream"

definition settle :: "axios_request \<Rightarrow> nat \<Rightarrow> json \<Rightarrow> axios_result" where
  "settle call s d =
     (if ax_validateStatus call s then Resolved s d
      else Rejected \<lparr>error_code = Some (if s < 500 then ''ERR_BAD_REQUEST'' else ''ERR_BAD_RESPONSE''),
                     error_response = Some (s, d),
                     error_message = ''Request failed with status code '' @ nat_digits s\<rparr>)"

text \<open>The first argument counts the redirects that may still be followed.\<close>

fun follow_redirects :: "nat \<Rightarrow> axios_request \<Rightarrow> upstream \<Rightarrow> axios_result" where
  "follow_redirects n call (Replies s v) = settle call s v"
| "follow_redirects n call (RepliesText s t) = settle call s (JStr t)"
| "follow_redirects n call (Redirects s loc b next) =
     (if ax_maxRedirects call = 0 \<or> s < 300 \<or> 400 \<le> s then settle call s (response_data b)
      else
        (case n of
           0 \<Rightarrow> Rejected \<lparr>error_code = Some ''ERR_FR_TOO_MANY_REDIRECTS'',
                          error_response = None,
                          error_message = ''Maximum number of redirects exceeded''\<rparr>
         | Suc m \<Rightarrow> follow_redirects m call next))"
| "follow_redirects n call NoReply =
     (if ax_timeout call = 0 then Pending
      else Rejected \<lparr>error_code = Some ''ECONNABORTED'',
                     error_response = None,
                     error_message = ''timeout of '' @ nat_digits (ax_timeout call) @ ''ms exceeded''\<rparr>)"
| "follow_redirects n call (Fails c m) =
     Rejected \<lparr>error_code = Some c, error_response = None, error_message = m\<rparr>"

definition axios :: "axios_request \<Rightarrow> upstream \<Rightarrow> axios_result" where
  "axios call up = follow_redirects (ax_maxRedirects call) call up"

text \<open>The default \<open>validateStatus\<close> of axios: \<open>status >= 200 && status < 300\<close>.\<close>

definition default_validateStatus :: "nat \<Rightarrow> bool" where
  "default_validateStatus s = (200 \<le> s \<and> s < 300)"

text \<open>
  What a request handler has done when it returns: the response it sent, if any, and the
  calls of axios it made, in order (the requests that follow a redirect are made inside
  one such call).
\<close>

record handled =
  sent :: "http_response option"
  calls :: "axios_request list"

section \<open>The proxy forwarders\<close>

text \<open>\<open>{...req.headers}\<close>: the inbound headers as an object.\<close>

definition spread_headers :: "request \<Rightarrow> (string \<times> json) list" where
  "spread_headers req = map (\<lambda>(k, v). (k, JStr v)) (headers req)"

subsection \<open>gateway.js, version 1.1: \<open>proxyRequest\<close> (lines 172-204)\<close>

text \<open>
  The call passes neither \<open>timeout\<close> nor \<open>maxRedirects\<close>, so axios applies its
  defaults: no timeout, and up to 5 redirects followed.
\<close>

definition proxyRequest_call :: "config \<Rightarrow> request \<Rightarrow> axios_request" where
  "proxyRequest_call cfg req =
     \<lparr>ax_method = http_method req,
      ax_url = PYTHON_BACKEND cfg @ originalUrl req,
      ax_data = body req,
      ax_params = req_query req,
      ax_headers =
        AList.update ''host'' (JStr (PYTHON_BACKEND_host cfg))
          (AList.update ''x-forwarded-by'' (JStr ''echo-gateway'')
            (AList.update ''x-user-role'' (opt_field (user req) ''role'')
              (AList.update ''x-user-id'' (opt_field (user req) ''id'') (spread_headers req)))),
      ax_timeout = 0,
      ax_maxRedirects = 5,
      ax_validateStatus = (\<lambda>s. True)\<rparr>"

definition backend_error_v11 :: "request \<Rightarrow> http_response" where
  "backend_error_v11 req =
     \<lparr>res_status = 502,
      res_json = JObj [(''success'', JBool False),
                       (''error'', JStr ''Backend service unavailable''),
                       (''code'', JStr ''BACKEND_ERROR''),
                       (''path'', JStr (originalUrl req))]\<rparr>"

definition proxyRequest :: "config \<Rightarrow> backend \<Rightarrow> request \<Rightarrow> handled" where
  "proxyRequest cfg upstream req =
     (let call = proxyRequest_call cfg req in
      \<lparr>sent =
         (case axios call (upstream call) of
            Resolved s d \<Rightarrow> Some \<lparr>res_status = s, res_json = d\<rparr>
          | Rejected error \<Rightarrow> Some (backend_error_v11 req)
          | Pending \<Rightarrow> None),
       calls = [call]\<rparr>)"

text \<open>\<open>createProxyHandler(requiresAuth)\<close> (lines 154-169).\<close>

definition createProxyHandler_v11 ::
  "config \<Rightarrow> jwt_verify \<Rightarrow> backend \<Rightarrow> bool \<Rightarrow> request \<Rightarrow> handled" where
  "createProxyHandler_v11 cfg verify upstream requiresAuth req =
     (if requiresAuth then
        (case authenticate_v11 verify (JWT_SECRET cfg) req of
           Responded r \<Rightarrow> \<lparr>sent = Some r, calls = []\<rparr>
         | Next req' \<Rightarrow> proxyRequest cfg upstream req')
      else proxyRequest cfg upstream req)"

subsection \<open>echo (1).js, version 1.0: \<open>createProxyHandler\<close> (lines 133-178)\<close>

text \<open>
  When \<open>authenticate\<close> answers itself, \<open>next\<close> is never called, the awaited promise
  never resolves and the handler goes no further. The options of the axios call are
  those of \<open>proxyRequest\<close>. The \<open>catch\<close> block relays the status of an error that
  carries a response and falls back to 502.
\<close>

definition forward_v10 :: "config \<Rightarrow> backend \<Rightarrow> request \<Rightarrow> handled" where
  "forward_v10 cfg upstream req =
     (let call = proxyRequest_call cfg req in
      \<lparr>sent =
         (case axios call (upstream call) of
            Resolved s d \<Rightarrow> Some \<lparr>res_status = s, res_json = d\<rparr>
          | Rejected error \<Rightarrow>
              Some \<lparr>res_status =
                      (case error_response error of
                         None \<Rightarrow> 502
                       | Some (s, d) \<Rightarrow> if s = 0 then 502 else s),
                    res_json = JObj [(''success'', JBool False),
                      (''error'',
                         (case error_response error of
                            None \<Rightarrow> JStr ''Backend service unavailable''
                          | Some (s, d) \<Rightarrow> js_or (opt_field d ''error'')
                                             (JStr ''Backend service unavailable''))),
                      (''code'', JStr ''BACKEND_ERROR''),
                      (''path'', JStr (originalUrl req))]\<rparr>
          | Pending \<Rightarrow> None),
       calls = [call]\<rparr>)"

definition createProxyHandler_v10 ::
  "config \<Rightarrow> jwt_verify \<Rightarrow> backend \<Rightarrow> bool \<Rightarrow> request \<Rightarrow> handled" where
  "createProxyHandler_v10 cfg verify upstream requiresAuth req =
     (if requiresAuth then
        (case authenticate_v10 verify (JWT_SECRET cfg) req of
           Responded r \<Rightarrow> \<lparr>sent = Some r, calls = []\<rparr>
         | Next req' \<Rightarrow> forward_v10 cfg upstream req')
      else forward_v10 cfg upstream req)"

subsection \<open>gateway.js, version 1.4: \<open>handleProxyRequest\<close> (lines 533-592)\<close>

text \<open>
  The call goes through \<open>axiosInstance\<close> (lines 365-381), created with
  \<open>timeout: 10000\<close>, \<open>maxRedirects: 0\<close> and the backend as base URL. \<open>startTime\<close> and \<open>endTime\<close> are the
  two readings of \<open>Date.now()\<close>.
\<close>

definition axiosInstance_timeout :: nat where
  "axiosInstance_timeout = 10000"

definition handleProxyRequest_call :: "config \<Rightarrow> request \<Rightarrow> int \<Rightarrow> axios_request" where
  "handleProxyRequest_call cfg req startTime =
     \<lparr>ax_method = http_method req,
      ax_url = PYTHON_BACKEND cfg @ originalUrl req,
      ax_data = body req,
      ax_params = req_query req,
      ax_headers =
        AList.update ''connection'' (JStr ''close'')
          (AList.update ''host'' (JStr (PYTHON_BACKEND_host cfg))
            (AList.update ''x-request-start-time'' (JStr (int_digits startTime))
              (AList.update ''x-forwarded-by'' (JStr ''echo-gateway-optimized'')
                (AList.update ''x-user-role'' (js_or (opt_field (user req) ''role'') (JStr []))
                  (AList.update ''x-user-id'' (js_or (opt_field (user req) ''id'') (JStr []))
                    (spread_headers req)))))),
      ax_timeout = axiosInstance_timeout,
      ax_maxRedirects = 0,
      ax_validateStatus = (\<lambda>s. True)\<rparr>"

definition backend_timeout_v14 :: "request \<Rightarrow> http_response" where
  "backend_timeout_v14 req =
     \<lparr>res_status = 504,
      res_json = JObj [(''success'', JBool False),
                       (''error'', JStr ''Backend timeout''),
                       (''code'', JStr ''BACKEND_TIMEOUT''),
                       (''path'', JStr (originalUrl req))]\<rparr>"

definition backend_error_v14 :: "request \<Rightarrow> int \<Rightarrow> http_response" where
  "backend_error_v14 req duration =
     \<lparr>res_status = 502,
      res_json = JObj [(''success'', JBool False),
                       (''error'', JStr ''Backend service unavailable''),
                       (''code'', JStr ''BACKEND_ERROR''),
                       (''path'', JStr (originalUrl req)),
                       (''duration'', JNum duration)]\<rparr>"

definition handleProxyRequest :: "config \<Rightarrow> backend \<Rightarrow> request \<Rightarrow> int \<Rightarrow> int \<Rightarrow> handled" where
  "handleProxyRequest cfg upstream req startTime endTime =
     (let call = handleProxyRequest_call cfg req startTime in
      \<lparr>sent =
         (case axios call (upstream call) of
            Resolved s d \<Rightarrow> Some \<lparr>res_status = s, res_json = d\<rparr>
          | Rejected error \<Rightarrow>
              if error_code error = Some ''ECONNABORTED'' then Some (backend_timeout_v14 req)
              else
                (case error_response error of
                   Some (s, d) \<Rightarrow> Some \<lparr>res_status = s, res_json = d\<rparr>
                 | None \<Rightarrow> Some (backend_error_v14 req (endTime - startTime)))
          | Pending \<Rightarrow> None),
       calls = [call]\<rparr>)"

definition createProxyHandler_v14 ::
  "config \<Rightarrow> jwt_verify \<Rightarrow> backend \<Rightarrow> bool \<Rightarrow> request \<Rightarrow> int \<Rightarrow> int \<Rightarrow> handled" where
  "createProxyHandler_v14 cfg verify upstream requiresAuth req startTime endTime =
     (if requiresAuth then
        (case authenticate_v14 verify (JWT_SECRET cfg) req of
           Responded r \<Rightarrow> \<lparr>sent = Some r, calls = []\<rparr>
         | Next req' \<Rightarrow> handleProxyRequest cfg upstream req' startTime endTime)
      else handleProxyRequest cfg upstream req startTime endTime)"

text \<open>
  The route \<open>/:schoolId*\<close> (lines 619-625), registered after the fixed routes
  \<open>/login\<close>, \<open>/register\<close>, \<open>/create-and-join\<close>, \<open>/join\<close>, \<open>/schools*\<close>,
  \<open>/teachers*\<close>, \<open>/students*\<close>, \<open>/classes*\<close>, \<open>/subjects*\<close>, \<open>/users*\<close>,
  \<open>/dashboard*\<close> and \<open>/utils*\<close>. \<open>req.params.schoolId\<close> is the first segment of
  the path. \<open>None\<close> stands for \<open>next()\<close>, which leaves the request to the routes
  registered later.
\<close>

definition params_schoolId :: "request \<Rightarrow> string" where
  "params_schoolId req = takeWhile (\<lambda>c. c \<noteq> CHR ''/'') (drop 1 (req_path req))"

definition schoolId_route_v14 ::
  "config \<Rightarrow> jwt_verify \<Rightarrow> backend \<Rightarrow> request \<Rightarrow> int \<Rightarrow> int \<Rightarrow> handled option" where
  "schoolId_route_v14 cfg verify upstream req startTime endTime =
     (if params_schoolId req \<noteq> [] \<and> 10 < length (params_schoolId req)
      then Some (createProxyHandler_v14 cfg verify upstream True req startTime endTime)
      else None)"

section \<open>The health endpoint\<close>

text \<open>
  Both handlers probe \<open>PYTHON_BACKEND/health\<close> with \<open>axios.get\<close>, a timeout and the
  defaults of axios for \<open>validateStatus\<close> and \<open>maxRedirects\<close>. Inputs besides the upstream: the clock reading
  \<open>new Date().toISOString()\<close>, \<open>wss.clients.size\<close> and \<open>process.env.NODE_ENV\<close>.
\<close>

definition health_call :: "config \<Rightarrow> nat \<Rightarrow> axios_request" where
  "health_call cfg t =
     \<lparr>ax_method = ''get'',
      ax_url = PYTHON_BACKEND cfg @ ''/health'',
      ax_data = JUndefined,
      ax_params = [],
      ax_headers = [],
      ax_timeout = t,
      ax_maxRedirects = 5,
      ax_validateStatus = default_validateStatus\<rparr>"

definition env_or_development :: "string option \<Rightarrow> string" where
  "env_or_development node_env =
     (case node_env of None \<Rightarrow> ''development'' | Some e \<Rightarrow> if e = [] then ''development'' else e)"

subsection \<open>gateway.js, version 1.1 (lines 235-258)\<close>

definition health_v11 ::
  "config \<Rightarrow> backend \<Rightarrow> string \<Rightarrow> nat \<Rightarrow> string option \<Rightarrow> http_response option" where
  "health_v11 cfg upstream now clients node_env =
     (let healthData =
            [(''success'', JBool True),
             (''service'', JStr ''Echo Gateway''),
             (''status'', JStr ''healthy''),
             (''timestamp'', JStr now),
             (''websocket'', JNum (int clients)),
             (''environment'', JStr (env_or_development node_env)),
             (''backend'', JStr ''checking'')];
          call = health_call cfg 3000
      in
        (case axios call (upstream call) of
           Resolved s d \<Rightarrow>
             Some \<lparr>res_status = 200,
                   res_json = JObj (AList.update ''backend'' (JStr ''connected'') healthData)\<rparr>
         | Rejected error \<Rightarrow>
             Some \<lparr>res_status = 200,
                   res_json = JObj
                     (AList.update ''backendError'' (JStr (error_message error))
                       (AList.update ''status'' (JStr ''degraded'')
                         (AList.update ''backend'' (JStr ''disconnected'') healthData)))\<rparr>
         | Pending \<Rightarrow> None))"

subsection \<open>echo (1).js, version 1.0 (lines 204-227)\<close>

definition health_v10 ::
  "config \<Rightarrow> backend \<Rightarrow> string \<Rightarrow> nat \<Rightarrow> string option \<Rightarrow> http_response option" where
  "health_v10 cfg upstream now clients node_env =
     (let call = health_call cfg 5000 in
      (case axios call (upstream call) of
         Resolved s d \<Rightarrow>
           Some \<lparr>res_status = 200,
                 res_json = JObj [(''success'', JBool True),
                                  (''service'', JStr ''Echo Gateway''),
                                  (''status'', JStr ''healthy''),
                                  (''timestamp'', JStr now),
                                  (''backend'', JStr ''connected''),
                                  (''websocket'', JNum (int clients)),
                                  (''environment'', JStr (env_or_development node_env))]\<rparr>
       | Rejected error \<Rightarrow>
           Some \<lparr>res_status = 503,
                 res_json = JObj [(''success'', JBool False),
                                  (''service'', JStr ''Echo Gateway''),
                                  (''status'', JStr ''degraded''),
                                  (''error'', JStr ''Backend unreachable''),
                                  (''backend'', JStr (PYTHON_BACKEND cfg))]\<rparr>
       | Pending \<Rightarrow> None))"

section \<open>The WebSocket server\<close>

text \<open>
  The server's state: \<open>activeConnections\<close>, a JavaScript \<open>Map\<close> from string keys to
  sockets, kept as an association list in insertion order (\<open>Map.set\<close> on a key that is
  present replaces the value in place, on a new key appends; \<open>Map.delete\<close> removes;
  \<open>Map.get\<close> looks up); the frames sent so far with \<open>ws.send\<close>, each with the socket it
  went to, oldest first; and the sockets closed by the server with \<open>ws.close(code, reason)\<close>.
  A frame is the object handed to \<open>JSON.stringify\<close>. A socket is named by a number.
\<close>

type_synonym ws = nat

record ws_server =
  activeConnections :: "(string \<times> ws) list"
  frames :: "(ws \<times> json) list"
  closes :: "(ws \<times> nat \<times> string) list"

definition send :: "ws \<Rightarrow> json \<Rightarrow> ws_server \<Rightarrow> ws_server" where
  "send sock frame S = S\<lparr>frames := frames S @ [(sock, frame)]\<rparr>"

definition close :: "ws \<Rightarrow> nat \<Rightarrow> string \<Rightarrow> ws_server \<Rightarrow> ws_server" where
  "close sock code reason S = S\<lparr>closes := closes S @ [(sock, code, reason)]\<rparr>"

definition error_frame :: json where
  "error_frame = JObj [(''type'', JStr ''error''), (''error'', JStr ''Invalid message format'')]"

text \<open>
  A connection handler returns the new state and, when the session is now open, the
  \<open>userId\<close> its \<open>message\<close> and \<open>close\<close> listeners have captured. The \<open>token\<close>
  argument is the query parameter of the upgrade URL (\<open>None\<close> when absent). An inbound
  frame is given by the result of \<open>JSON.parse(data.toString())\<close>, \<open>None\<close> when it
  throws.
\<close>

subsection \<open>gateway.js, version 1.1 (lines 102-149)\<close>

definition connection_v11 ::
  "jwt_verify \<Rightarrow> string \<Rightarrow> ws \<Rightarrow> string option \<Rightarrow> ws_server \<Rightarrow> ws_server \<times> json option" where
  "connection_v11 verify secret sock token S =
     (case token of
        None \<Rightarrow> (close sock 1008 ''No token'' S, None)
      | Some t \<Rightarrow>
          if t = [] then (close sock 1008 ''No token'' S, None)
          else
            (case verify t secret of
               Inl e \<Rightarrow> (close sock 1008 ''Auth failed'' S, None)
             | Inr decoded \<Rightarrow>
                 if nullish decoded then (close sock 1008 ''Auth failed'' S, None)
                 else
                   (let userId = js_or (js_or (field decoded ''userId'') (field decoded ''id''))
                                       (field decoded ''user_id'')
                    in if \<not> truthy userId then (close sock 1008 ''Invalid token'' S, None)
                       else (S\<lparr>activeConnections :=
                                 AList.update (toString userId) sock (activeConnections S)\<rparr>,
                             Some userId))))"

definition on_message_v11 :: "string \<Rightarrow> ws \<Rightarrow> json option \<Rightarrow> ws_server \<Rightarrow> ws_server" where
  "on_message_v11 now sock parsed S =
     (case parsed of
        None \<Rightarrow> send sock error_frame S
      | Some message \<Rightarrow>
          if nullish message then send sock error_frame S
          else if field message ''type'' = JStr ''ping''
          then send sock (JObj [(''type'', JStr ''pong''), (''timestamp'', JStr now)]) S
          else S)"

definition on_close_v11 :: "json \<Rightarrow> ws_server \<Rightarrow> ws_server" where
  "on_close_v11 userId S =
     S\<lparr>activeConnections := AList.delete (toString userId) (activeConnections S)\<rparr>"

subsection \<open>echo (1).js, version 1.0 (lines 99-128)\<close>

text \<open>
  The connection handler registers a \<open>close\<close> listener only. No \<open>message\<close> listener
  exists, so an inbound frame changes nothing and nothing is sent in reply.
\<close>

definition connection_v10 ::
  "jwt_verify \<Rightarrow> string \<Rightarrow> ws \<Rightarrow> string option \<Rightarrow> ws_server \<Rightarrow> ws_server \<times> json option" where
  "connection_v10 verify secret sock token S =
     (case token of
        None \<Rightarrow> (close sock 1008 ''No token'' S, None)
      | Some t \<Rightarrow>
          if t = [] then (close sock 1008 ''No token'' S, None)
          else
            (case verify t secret of
               Inl e \<Rightarrow> (close sock 1008 ''Auth failed'' S, None)
             | Inr decoded \<Rightarrow>
                 if nullish decoded then (close sock 1008 ''Auth failed'' S, None)
                 else
                   (let userId = js_or (js_or (field decoded ''userId'') (field decoded ''id''))
                                       (field decoded ''user_id'')
                    in if \<not> truthy userId then (close sock 1008 ''Invalid token'' S, None)
                       else (S\<lparr>activeConnections :=
                                 AList.update (toString userId) sock (activeConnections S)\<rparr>,
                             Some userId))))"

definition on_message_v10 :: "string \<Rightarrow> ws \<Rightarrow> json option \<Rightarrow> ws_server \<Rightarrow> ws_server" where
  "on_message_v10 now sock parsed S = S"

definition on_close_v10 :: "json \<Rightarrow> ws_server \<Rightarrow> ws_server" where
  "on_close_v10 userId S =
     S\<lparr>activeConnections := AList.delete (toString userId) (activeConnections S)\<rparr>"

subsection \<open>echo.js, the chat server (lines 125-220)\<close>

definition broadcastOnlineUsers :: "string \<Rightarrow> ws_server \<Rightarrow> ws_server" where
  "broadcastOnlineUsers now S =
     (let onlineUsers = map fst (activeConnections S);
          message = JObj [(''type'', JStr ''online_users''),
                          (''users'', JArr (map JStr onlineUsers)),
                          (''timestamp'', JStr now)]
      in S\<lparr>frames := frames S @ map (\<lambda>(k, sock). (sock, message)) (activeConnections S)\<rparr>)"

text \<open>
  \<open>now1\<close> and \<open>now2\<close> are the clock readings of the welcome frame and of the
  broadcast.
\<close>

definition connection_echo ::
  "jwt_verify \<Rightarrow> string \<Rightarrow> string \<Rightarrow> string \<Rightarrow> ws \<Rightarrow> string option \<Rightarrow> ws_server
     \<Rightarrow> ws_server \<times> json option" where
  "connection_echo verify secret now1 now2 sock token S =
     (case token of
        None \<Rightarrow> (close sock 1008 ''Authentication required'' S, None)
      | Some t \<Rightarrow>
          if t = [] then (close sock 1008 ''Authentication required'' S, None)
          else
            (case verify t secret of
               Inl e \<Rightarrow> (close sock 1008 ''Invalid token'' S, None)
             | Inr decoded \<Rightarrow>
                 if nullish decoded then (close sock 1008 ''Invalid token'' S, None)
                 else
                   (let userId = js_or (js_or (field decoded ''userId'') (field decoded ''id''))
                                       (field decoded ''user_id'')
                    in if \<not> truthy userId
                       then (close sock 1008 ''Invalid token: no user ID'' S, None)
                       else
                         (broadcastOnlineUsers now2
                            (send sock (JObj [(''type'', JStr ''system''),
                                              (''message'', JStr ''Connected to Echo Chat''),
                                              (''timestamp'', JStr now1)])
                               (S\<lparr>activeConnections :=
                                    AList.update (toString userId) sock (activeConnections S)\<rparr>)),
                          Some userId))))"

text \<open>
  \<open>handleChatMessage(senderId, message)\<close> (lines 186-207). The destructuring of
  \<open>message\<close> throws when it is \<open>null\<close> (\<open>None\<close>); the listener's \<open>catch\<close> then
  answers with the error frame.
\<close>

definition handleChatMessage :: "string \<Rightarrow> json \<Rightarrow> json \<Rightarrow> ws_server \<Rightarrow> ws_server option" where
  "handleChatMessage now senderId message S =
     (if nullish message then None
      else
        (let type = field message ''type'';
             receiverId = field message ''receiverId'';
             content = field message ''content''
         in Some
           (if type = JStr ''private'' \<and> truthy receiverId then
              (case map_of (activeConnections S) (toString receiverId) of
                 None \<Rightarrow> S
               | Some receiverWs \<Rightarrow>
                   send receiverWs (JObj [(''type'', JStr ''message''),
                                          (''senderId'', senderId),
                                          (''content'', content),
                                          (''timestamp'', JStr now)]) S)
            else S)))"

definition on_message_echo :: "string \<Rightarrow> ws \<Rightarrow> json \<Rightarrow> json option \<Rightarrow> ws_server \<Rightarrow> ws_server" where
  "on_message_echo now sock userId parsed S =
     (case parsed of
        None \<Rightarrow> send sock error_frame S
      | Some message \<Rightarrow>
          (case handleChatMessage now userId message S of
             None \<Rightarrow> send sock error_frame S
           | Some S' \<Rightarrow> S'))"

definition on_close_echo :: "string \<Rightarrow> json \<Rightarrow> ws_server \<Rightarrow> ws_server" where
  "on_close_echo now userId S =
     broadcastOnlineUsers now
       (S\<lparr>activeConnections := AList.delete (toString userId) (activeConnections S)\<rparr>)"

subsection \<open>Runs of the WebSocket server\<close>

text \<open>
  The events a server reacts to, each with the clock readings its handler takes, and the
  state after a sequence of them. A \<open>Frame\<close> or \<open>Closed\<close> event names the socket and
  the \<open>userId\<close> captured by the session it belongs to.
\<close>

datatype ws_event =
    Upgrade ws "string option" string string
  | Frame ws json "json option" string
  | Closed json string

definition ws_initial :: ws_server where
  "ws_initial = \<lparr>activeConnections = [], frames = [], closes = []\<rparr>"

fun step_echo :: "jwt_verify \<Rightarrow> string \<Rightarrow> ws_server \<Rightarrow> ws_event \<Rightarrow> ws_server" where
  "step_echo verify secret S (Upgrade sock token now1 now2) =
     fst (connection_echo verify secret now1 now2 sock token S)"
| "step_echo verify secret S (Frame sock userId parsed now) =
     on_message_echo now sock userId parsed S"
| "step_echo verify secret S (Closed userId now) = on_close_echo now userId S"

fun step_v11 :: "jwt_verify \<Rightarrow> string \<Rightarrow> ws_server \<Rightarrow> ws_event \<Rightarrow> ws_server" where
  "step_v11 verify secret S (Upgrade sock token now1 now2) =
     fst (connection_v11 verify secret sock token S)"
| "step_v11 verify secret S (Frame sock userId parsed now) = on_message_v11 now sock parsed S"
| "step_v11 verify secret S (Closed userId now) = on_close_v11 userId S"

definition run_echo :: "jwt_verify \<Rightarrow> string \<Rightarrow> ws_event list \<Rightarrow> ws_server" where
  "run_echo verify secret events = foldl (step_echo verify secret) ws_initial events"

definition run_v11 :: "jwt_verify \<Rightarrow> string \<Rightarrow> ws_event list \<Rightarrow> ws_server" where
  "run_v11 verify secret events = foldl (step_v11 verify secret) ws_initial events"

section \<open>Sample inputs\<close>

text \<open>
  Concrete inputs on which the theorems below are exercised: a deployment, a token
  library that accepts four tokens and knows an expired one under the secret \<open>s3cret\<close>, and a few requests.
\<close>

definition sample_config :: config where
  "sample_config =
     \<lparr>JWT_SECRET = ''s3cret'',
      PYTHON_BACKEND = ''http://backend.internal'',
      PYTHON_BACKEND_host = ''backend.internal''\<rparr>"

definition sample_verify :: jwt_verify where
  "sample_verify token secret =
     (if secret \<noteq> ''s3cret'' then Inl JsonWebTokenError
      else if token = ''tok-alice'' then
        Inr (JObj [(''userId'', JStr ''alice''), (''user_id'', JStr ''legacy-7''), (''role'', JStr ''teacher'')])
      else if token = ''tok-five'' then Inr (JObj [(''id'', JNum 5)])
      else if token = ''tok-5'' then Inr (JObj [(''user_id'', JStr ''5'')])
      else if token = ''tok-anon'' then Inr (JObj [(''email'', JStr ''nobody@example.org'')])
      else if token = ''tok-old'' then Inl TokenExpiredError
      else Inl JsonWebTokenError)"

definition sample_request :: "string \<Rightarrow> (string \<times> string) list \<Rightarrow> request" where
  "sample_request url hdrs =
     \<lparr>http_method = ''GET'', originalUrl = url, headers = hdrs, body = JUndefined, user = JUndefined\<rparr>"

section \<open>Unfolding rules\<close>

text \<open>The defining equations, grouped for evaluating the model on concrete inputs.\<close>

lemmas value_defs = js_or_def nullish_def opt_field_def toString_def startsWith_def
  toLowerCase_def lower_char_def int_digits_def digit_char_def

lemmas request_defs = req_path_def req_query_def sample_request_def sample_config_def sample_verify_def
  verify_bearer_def no_token_response_def auth_catch_def invalid_format_response_def

lemmas auth_defs = authenticate_v11_def authenticate_v10_def authenticate_v14_def
  isPublic_v11_def isPublic_v14_def publicPaths_v11_def publicPaths_v10_def publicPaths_v14_def

section \<open>Relaying upstream responses\<close>

lemma calls_proxyRequest: "calls (proxyRequest cfg upstream req) = [proxyRequest_call cfg req]"
  by (simp add: proxyRequest_def Let_def)

lemma calls_handleProxyRequest:
  "calls (handleProxyRequest cfg upstream req t0 t1) = [handleProxyRequest_call cfg req t0]"
  by (simp add: handleProxyRequest_def Let_def)

lemma sent_proxyRequest_replies:
  assumes "upstream (proxyRequest_call cfg req) = Replies S B"
  shows "sent (proxyRequest cfg upstream req) = Some \<lparr>res_status = S, res_json = B\<rparr>"
proof -
  have "ax_validateStatus (proxyRequest_call cfg req) S"
    by (simp add: proxyRequest_call_def)
  then have "axios (proxyRequest_call cfg req) (Replies S B) = Resolved S B"
    by (simp add: axios_def settle_def)
  with assms show ?thesis
    by (simp add: proxyRequest_def Let_def)
qed

lemma sent_handleProxyRequest_replies:
  assumes "upstream (handleProxyRequest_call cfg req t0) = Replies S B"
  shows "sent (handleProxyRequest cfg upstream req t0 t1) = Some \<lparr>res_status = S, res_json = B\<rparr>"
proof -
  have "ax_validateStatus (handleProxyRequest_call cfg req t0) S"
    by (simp add: handleProxyRequest_call_def)
  then have "axios (handleProxyRequest_call cfg req t0) (Replies S B) = Resolved S B"
    by (simp add: axios_def settle_def)
  with assms show ?thesis
    by (simp add: handleProxyRequest_def Let_def)
qed

lemma handleProxyRequest_relays_redirect:
  assumes "upstream (handleProxyRequest_call cfg req t0) = Redirects s loc b next"
  shows "sent (handleProxyRequest cfg upstream req t0 t1)
           = Some \<lparr>res_status = s, res_json = response_data b\<rparr>"
proof -
  have "ax_maxRedirects (handleProxyRequest_call cfg req t0) = 0"
    and "ax_validateStatus (handleProxyRequest_call cfg req t0) s"
    by (simp_all add: handleProxyRequest_call_def)
  then have "axios (handleProxyRequest_call cfg req t0) (Redirects s loc b next)
               = Resolved s (response_data b)"
    by (simp add: axios_def settle_def)
  with assms show ?thesis
    by (simp add: handleProxyRequest_def Let_def)
qed

lemma proxyRequest_follows_redirect:
  assumes "upstream (proxyRequest_call cfg req) = Redirects s loc b (Replies s' v)"
    and "300 \<le> s" and "s < 400"
  shows "sent (proxyRequest cfg upstream req) = Some \<lparr>res_status = s', res_json = v\<rparr>"
proof -
  have "ax_maxRedirects (proxyRequest_call cfg req) = 5"
    and "ax_validateStatus (proxyRequest_call cfg req) s'"
    by (simp_all add: proxyRequest_call_def)
  with assms(2,3) have "axios (proxyRequest_call cfg req) (Redirects s loc b (Replies s' v))
               = Resolved s' v"
    by (simp add: axios_def settle_def)
  with assms(1) show ?thesis
    by (simp add: proxyRequest_def Let_def)
qed

text \<open>
  C1. In gateway.js version 1.1 an upstream redirect is not relayed. Take a request for
  \<open>/api/widgets\<close> with a valid bearer token, which the route \<open>/api/*\<close> hands to
  \<open>createProxyHandler(true)\<close>, and an upstream that answers 302 with a \<open>Location\<close>
  header. The call of \<open>proxyRequest\<close> sets no \<open>maxRedirects\<close>, so axios follows the
  redirect, and the client receives the answer to the follow-up request, here status 200
  with the target's body, instead of status 302. Version 1.4, whose axios instance sets
  \<open>maxRedirects: 0\<close>, relays the 302 for the same upstream (on its route
  \<open>/schools*\<close>), with the redirect's text body sent as a JSON string.
\<close>

theorem proxyRequest_follows_upstream_redirect:
  "createProxyHandler_v11 sample_config sample_verify
      (\<lambda>c. Redirects 302 ''/elsewhere'' (TextBody ''Found'')
             (Replies 200 (JObj [(''landed'', JStr ''/elsewhere'')])))
      True (sample_request ''/api/widgets'' [(''authorization'', ''Bearer tok-alice'')])
    = \<lparr>sent = Some \<lparr>res_status = 200, res_json = JObj [(''landed'', JStr ''/elsewhere'')]\<rparr>,
       calls = [proxyRequest_call sample_config
                  ((sample_request ''/api/widgets'' [(''authorization'', ''Bearer tok-alice'')])
                     \<lparr>user := JObj [(''id'', JStr ''alice''), (''email'', JUndefined),
                                    (''role'', JStr ''teacher''), (''schoolId'', JUndefined)]\<rparr>)]\<rparr>
   \<and> sent (createProxyHandler_v14 sample_config sample_verify
      (\<lambda>c. Redirects 302 ''/elsewhere'' (TextBody ''Found'')
             (Replies 200 (JObj [(''landed'', JStr ''/elsewhere'')])))
      True (sample_request ''/schools'' [(''authorization'', ''Bearer tok-alice'')]) 0 5)
    = Some \<lparr>res_status = 302, res_json = JStr ''Found''\<rparr>"
proof (intro conjI)
  let ?up = "\<lambda>c::axios_request. Redirects 302 ''/elsewhere'' (TextBody ''Found'')
             (Replies 200 (JObj [(''landed'', JStr ''/elsewhere'')]))"
  let ?r = "sample_request ''/api/widgets'' [(''authorization'', ''Bearer tok-alice'')]"
  let ?r' = "?r\<lparr>user := JObj [(''id'', JStr ''alice''), (''email'', JUndefined),
                                (''role'', JStr ''teacher''), (''schoolId'', JUndefined)]\<rparr>"
  have a: "authenticate_v11 sample_verify (JWT_SECRET sample_config) ?r = Next ?r'"
    by (simp add: value_defs request_defs auth_defs)
  have "sent (proxyRequest sample_config ?up ?r')
          = Some \<lparr>res_status = 200, res_json = JObj [(''landed'', JStr ''/elsewhere'')]\<rparr>"
    by (rule proxyRequest_follows_redirect [where s = 302 and loc = "''/elsewhere''"
          and b = "TextBody ''Found''"]) simp_all
  moreover have "calls (proxyRequest sample_config ?up ?r') = [proxyRequest_call sample_config ?r']"
    by (rule calls_proxyRequest)
  ultimately have "proxyRequest sample_config ?up ?r'
      = \<lparr>sent = Some \<lparr>res_status = 200, res_json = JObj [(''landed'', JStr ''/elsewhere'')]\<rparr>,
         calls = [proxyRequest_call sample_config ?r']\<rparr>"
    by (cases "proxyRequest sample_config ?up ?r'") simp
  with a show "createProxyHandler_v11 sample_config sample_verify ?up True ?r
      = \<lparr>sent = Some \<lparr>res_status = 200, res_json = JObj [(''landed'', JStr ''/elsewhere'')]\<rparr>,
         calls = [proxyRequest_call sample_config ?r']\<rparr>"
    by (simp add: createProxyHandler_v11_def)
next
  let ?up = "\<lambda>c::axios_request. Redirects 302 ''/elsewhere'' (TextBody ''Found'')
             (Replies 200 (JObj [(''landed'', JStr ''/elsewhere'')]))"
  let ?r = "sample_request ''/schools'' [(''authorization'', ''Bearer tok-alice'')]"
  obtain r' where a: "authenticate_v14 sample_verify (JWT_SECRET sample_config) ?r = Next r'"
    by (simp add: value_defs request_defs auth_defs)
  have "sent (handleProxyRequest sample_config ?up r' 0 5)
          = Some \<lparr>res_status = 302, res_json = response_data (TextBody ''Found'')\<rparr>"
    by (rule handleProxyRequest_relays_redirect) simp
  with a show "sent (createProxyHandler_v14 sample_config sample_verify ?up True ?r 0 5)
      = Some \<lparr>res_status = 302, res_json = JStr ''Found''\<rparr>"
    by (simp add: createProxyHandler_v14_def response_data_def)
qed

section \<open>Requests without a bearer token\<close>

lemma authenticate_v11_no_bearer:
  assumes "\<not> isPublic_v11 (req_path req)"
    and "map_of (headers req) ''authorization'' = None
         \<or> (\<exists>h. map_of (headers req) ''authorization'' = Some h \<and> \<not> startsWith h ''Bearer '')"
  shows "authenticate_v11 verify secret req = Responded no_token_response"
  using assms by (auto simp add: authenticate_v11_def)

lemma authenticate_v10_no_bearer:
  assumes "req_path req \<notin> set publicPaths_v10"
    and "map_of (headers req) ''authorization'' = None
         \<or> (\<exists>h. map_of (headers req) ''authorization'' = Some h \<and> \<not> startsWith h ''Bearer '')"
  shows "authenticate_v10 verify secret req = Responded no_token_response"
  using assms by (auto simp add: authenticate_v10_def)

lemma authenticate_v14_no_bearer:
  assumes "\<not> isPublic_v14 (req_path req)"
    and "map_of (headers req) ''authorization'' = None
         \<or> (\<exists>h. map_of (headers req) ''authorization'' = Some h \<and> \<not> startsWith h ''Bearer '')"
  shows "authenticate_v14 verify secret req = Responded no_token_response"
  using assms by (auto simp add: authenticate_v14_def)

text \<open>
  C2. A request handled by a proxy handler that requires authentication, on a path that is
  not in the allow-list, whose \<open>Authorization\<close> header is absent or does not start
  with \<open>Bearer \<close>, is answered with status 401 and code \<open>NO_TOKEN\<close>, and the handler
  makes no upstream call. Shown for \<open>createProxyHandler(true)\<close> of gateway.js version
  1.1, of echo (1).js and of gateway.js version 1.4, each with its own allow-list.
\<close>

theorem missing_bearer_rejected_before_forwarding:
  assumes "map_of (headers req) ''authorization'' = None
         \<or> (\<exists>h. map_of (headers req) ''authorization'' = Some h \<and> \<not> startsWith h ''Bearer '')"
  shows "(\<not> isPublic_v11 (req_path req) \<longrightarrow>
            createProxyHandler_v11 cfg verify upstream True req
              = \<lparr>sent = Some no_token_response, calls = []\<rparr>)
       \<and> (req_path req \<notin> set publicPaths_v10 \<longrightarrow>
            createProxyHandler_v10 cfg verify upstream True req
              = \<lparr>sent = Some no_token_response, calls = []\<rparr>)
       \<and> (\<not> isPublic_v14 (req_path req) \<longrightarrow>
            createProxyHandler_v14 cfg verify upstream True req startTime endTime
              = \<lparr>sent = Some no_token_response, calls = []\<rparr>)
       \<and> res_status no_token_response = 401
       \<and> field (res_json no_token_response) ''code'' = JStr ''NO_TOKEN''"
proof (intro conjI impI)
  assume "\<not> isPublic_v11 (req_path req)"
  then have "authenticate_v11 verify (JWT_SECRET cfg) req = Responded no_token_response"
    using assms by (rule authenticate_v11_no_bearer)
  then show "createProxyHandler_v11 cfg verify upstream True req
              = \<lparr>sent = Some no_token_response, calls = []\<rparr>"
    by (simp add: createProxyHandler_v11_def)
next
  assume "req_path req \<notin> set publicPaths_v10"
  then have "authenticate_v10 verify (JWT_SECRET cfg) req = Responded no_token_response"
    using assms by (rule authenticate_v10_no_bearer)
  then show "createProxyHandler_v10 cfg verify upstream True req
              = \<lparr>sent = Some no_token_response, calls = []\<rparr>"
    by (simp add: createProxyHandler_v10_def)
next
  assume "\<not> isPublic_v14 (req_path req)"
  then have "authenticate_v14 verify (JWT_SECRET cfg) req = Responded no_token_response"
    using assms by (rule authenticate_v14_no_bearer)
  then show "createProxyHandler_v14 cfg verify upstream True req startTime endTime
              = \<lparr>sent = Some no_token_response, calls = []\<rparr>"
    by (simp add: createProxyHandler_v14_def)
next
  show "res_status no_token_response = 401"
    by (simp add: no_token_response_def)
next
  show "field (res_json no_token_response) ''code'' = JStr ''NO_TOKEN''"
    by (simp add: no_token_response_def)
qed

theorem missing_bearer_rejected_before_forwarding_witness:
  "map_of (headers (sample_request ''/api/schools/42?term=2'' [(''authorization'', ''Basic dXNlcjpwdw=='')]))
       ''authorization'' = Some ''Basic dXNlcjpwdw==''
   \<and> \<not> startsWith ''Basic dXNlcjpwdw=='' ''Bearer ''
   \<and> \<not> isPublic_v11 (req_path (sample_request ''/api/schools/42?term=2''
                                   [(''authorization'', ''Basic dXNlcjpwdw=='')]))
   \<and> req_path (sample_request ''/api/schools/42?term=2'' [(''authorization'', ''Basic dXNlcjpwdw=='')])
        \<notin> set publicPaths_v10
   \<and> createProxyHandler_v11 sample_config sample_verify (\<lambda>c. Replies 200 JNull) True
        (sample_request ''/api/schools/42?term=2'' [(''authorization'', ''Basic dXNlcjpwdw=='')])
       = \<lparr>sent = Some no_token_response, calls = []\<rparr>
   \<and> createProxyHandler_v10 sample_config sample_verify (\<lambda>c. Replies 200 JNull) True
        (sample_request ''/api/schools/42?term=2'' [(''authorization'', ''Basic dXNlcjpwdw=='')])
       = \<lparr>sent = Some no_token_response, calls = []\<rparr>
   \<and> \<not> isPublic_v14 (req_path (sample_request ''/api/schools/42?term=2''
                                   [(''authorization'', ''Basic dXNlcjpwdw=='')]))
   \<and> createProxyHandler_v14 sample_config sample_verify (\<lambda>c. Replies 200 JNull) True
        (sample_request ''/api/schools/42?term=2'' [(''authorization'', ''Basic dXNlcjpwdw=='')]) 0 5
       = \<lparr>sent = Some no_token_response, calls = []\<rparr>"
proof -
  let ?r = "sample_request ''/api/schools/42?term=2'' [(''authorization'', ''Basic dXNlcjpwdw=='')]"
  have h: "map_of (headers ?r) ''authorization'' = Some ''Basic dXNlcjpwdw==''"
    by (simp add: sample_request_def)
  have b: "\<not> startsWith ''Basic dXNlcjpwdw=='' ''Bearer ''"
    by (simp add: startsWith_def)
  have p: "\<not> isPublic_v11 (req_path ?r)"
    by (simp add: isPublic_v11_def publicPaths_v11_def req_path_def sample_request_def)
  have q: "req_path ?r \<notin> set publicPaths_v10"
    by (simp add: publicPaths_v10_def req_path_def sample_request_def)
  have p4: "\<not> isPublic_v14 (req_path ?r)"
    by (simp add: isPublic_v14_def publicPaths_v14_def req_path_def sample_request_def
        toLowerCase_def lower_char_def startsWith_def)
  from h b have a: "map_of (headers ?r) ''authorization'' = None
         \<or> (\<exists>h. map_of (headers ?r) ''authorization'' = Some h \<and> \<not> startsWith h ''Bearer '')"
    by simp
  from missing_bearer_rejected_before_forwarding [OF a, of sample_config sample_verify
      "\<lambda>c. Replies 200 JNull" 0 5]
    h b p q p4
  show ?thesis by simp
qed

section \<open>The signing secret at start-up\<close>

lemma gateway_refuses_to_start_without_secret:
  "startup_gateway None = Exit 1 \<and> startup_gateway (Some []) = Exit 1"
  by (simp add: startup_gateway_def)

lemma gateway_secret_is_configured:
  "startup_gateway env = Listening s \<longleftrightarrow> env = Some s \<and> s \<noteq> []"
  by (auto simp add: startup_gateway_def split: option.splits)

text \<open>
  C3. With \<open>JWT_SECRET\<close> absent from the environment (or empty), echo.js does not
  refuse to start: it listens with the hardcoded secret
  \<open>echo-secret-key-change-in-production\<close>, which \<open>jwt.verify\<close> then uses. The gateway
  files exit with code 1 on the same input (lemma above).
\<close>

theorem echo_falls_back_to_default_secret:
  "startup_echo None = Listening ''echo-secret-key-change-in-production''
   \<and> startup_echo (Some []) = Listening ''echo-secret-key-change-in-production''"
  by (simp add: startup_echo_def JWT_SECRET_echo_def)

section \<open>Resolving the identity of a verified token\<close>

lemma startsWith_nonempty: "startsWith s ''Bearer '' \<Longrightarrow> s \<noteq> []"
  by (auto simp add: startsWith_def)

lemma authenticate_v11_verified:
  assumes "\<not> isPublic_v11 (req_path req)"
    and "map_of (headers req) ''authorization'' = Some authHeader"
    and "startsWith authHeader ''Bearer ''"
    and "verify_bearer verify authHeader secret = Inr decoded"
    and "\<not> nullish decoded"
  shows "authenticate_v11 verify secret req =
          (if \<not> truthy (field decoded ''userId'') \<and> \<not> truthy (field decoded ''id'')
                \<and> \<not> truthy (field decoded ''user_id'')
           then Responded invalid_format_response
           else Next (req\<lparr>user :=
                  JObj [(''id'', js_or (js_or (field decoded ''userId'') (field decoded ''id''))
                                      (field decoded ''user_id'')),
                        (''email'', field decoded ''email''),
                        (''role'', field decoded ''role''),
                        (''schoolId'', field decoded ''schoolId'')]\<rparr>))"
  using assms startsWith_nonempty [of authHeader]
  by (simp add: authenticate_v11_def)

lemma authenticate_v14_verified:
  assumes "\<not> isPublic_v14 (req_path req)"
    and "map_of (headers req) ''authorization'' = Some authHeader"
    and "startsWith authHeader ''Bearer ''"
    and "verify_bearer verify authHeader secret = Inr decoded"
    and "\<not> nullish decoded"
  shows "authenticate_v14 verify secret req =
           Next (req\<lparr>user :=
                  JObj [(''id'', js_or (js_or (field decoded ''user_id'') (field decoded ''userId''))
                                      (field decoded ''id'')),
                        (''email'', field decoded ''email''),
                        (''role'', field decoded ''role''),
                        (''schoolId'', js_or (field decoded ''school_id'')
                                            (field decoded ''schoolId''))]\<rparr>)"
  using assms startsWith_nonempty [of authHeader]
  by (simp add: authenticate_v14_def)

lemma js_or_chain_find:
  "find truthy [a, b, c] = Some v \<Longrightarrow> js_or (js_or a b) c = v"
  by (auto simp add: js_or_def split: if_splits)

lemma find_truthy_some:
  "find truthy [a, b, c] = Some v \<Longrightarrow> truthy a \<or> truthy b \<or> truthy c"
  by (auto split: if_splits)

lemma js_or_chain_none:
  "find truthy [a, b, c] = None \<Longrightarrow> js_or (js_or a b) c = c \<and> \<not> truthy a \<and> \<not> truthy b \<and> \<not> truthy c"
  by (auto simp add: js_or_def split: if_splits)

text \<open>
  C4, as amended. Take a request on a protected path whose bearer token verifies to a
  payload \<open>decoded\<close>.
  In gateway.js version 1.1: when none of \<open>userId\<close>, \<open>id\<close>, \<open>user_id\<close> is truthy the
  middleware answers 401 with code \<open>INVALID_TOKEN\<close>; otherwise it calls \<open>next\<close> with
  \<open>req.user.id\<close> the first truthy one of \<open>userId\<close>, \<open>id\<close>, \<open>user_id\<close>, in that
  order.
  In gateway.js version 1.4 there is no such rejection: the middleware always calls
  \<open>next\<close>, with \<open>req.user.id\<close> the first truthy one of \<open>user_id\<close>, \<open>userId\<close>,
  \<open>id\<close>, in that order, and a falsy value (that of \<open>decoded.id\<close>) when none is.
\<close>

theorem identity_id_resolution:
  assumes "map_of (headers req) ''authorization'' = Some authHeader"
    and "startsWith authHeader ''Bearer ''"
    and "verify_bearer verify authHeader secret = Inr decoded"
    and "\<not> nullish decoded"
  shows
    "(\<not> isPublic_v11 (req_path req) \<longrightarrow>
        (find truthy [field decoded ''userId'', field decoded ''id'', field decoded ''user_id''] = None
           \<longrightarrow> authenticate_v11 verify secret req = Responded invalid_format_response)
      \<and> (find truthy [field decoded ''userId'', field decoded ''id'', field decoded ''user_id''] = Some v
           \<longrightarrow> (\<exists>req'. authenticate_v11 verify secret req = Next req'
                       \<and> field (user req') ''id'' = v)))
     \<and> (\<not> isPublic_v14 (req_path req) \<longrightarrow>
        (find truthy [field decoded ''user_id'', field decoded ''userId'', field decoded ''id''] = None
           \<longrightarrow> (\<exists>req'. authenticate_v14 verify secret req = Next req'
                       \<and> field (user req') ''id'' = field decoded ''id''
                       \<and> \<not> truthy (field (user req') ''id'')))
      \<and> (find truthy [field decoded ''user_id'', field decoded ''userId'', field decoded ''id''] = Some w
           \<longrightarrow> (\<exists>req'. authenticate_v14 verify secret req = Next req'
                       \<and> field (user req') ''id'' = w)))
     \<and> res_status invalid_format_response = 401
     \<and> field (res_json invalid_format_response) ''code'' = JStr ''INVALID_TOKEN''"
proof (intro conjI impI)
  assume np: "\<not> isPublic_v11 (req_path req)"
    and none: "find truthy [field decoded ''userId'', field decoded ''id'', field decoded ''user_id''] = None"
  from js_or_chain_none [OF none] authenticate_v11_verified [OF np assms]
  show "authenticate_v11 verify secret req = Responded invalid_format_response"
    by simp
next
  assume np: "\<not> isPublic_v11 (req_path req)"
    and some: "find truthy [field decoded ''userId'', field decoded ''id'', field decoded ''user_id''] = Some v"
  from find_truthy_some [OF some] authenticate_v11_verified [OF np assms]
  have "authenticate_v11 verify secret req =
         Next (req\<lparr>user :=
                  JObj [(''id'', js_or (js_or (field decoded ''userId'') (field decoded ''id''))
                                      (field decoded ''user_id'')),
                        (''email'', field decoded ''email''),
                        (''role'', field decoded ''role''),
                        (''schoolId'', field decoded ''schoolId'')]\<rparr>)"
    by presburger
  with js_or_chain_find [OF some]
  show "\<exists>req'. authenticate_v11 verify secret req = Next req' \<and> field (user req') ''id'' = v"
    by simp
next
  assume np: "\<not> isPublic_v14 (req_path req)"
    and none: "find truthy [field decoded ''user_id'', field decoded ''userId'', field decoded ''id''] = None"
  from js_or_chain_none [OF none] authenticate_v14_verified [OF np assms]
  show "\<exists>req'. authenticate_v14 verify secret req = Next req'
              \<and> field (user req') ''id'' = field decoded ''id''
              \<and> \<not> truthy (field (user req') ''id'')"
    by simp
next
  assume np: "\<not> isPublic_v14 (req_path req)"
    and some: "find truthy [field decoded ''user_id'', field decoded ''userId'', field decoded ''id''] = Some w"
  from js_or_chain_find [OF some] authenticate_v14_verified [OF np assms]
  show "\<exists>req'. authenticate_v14 verify secret req = Next req' \<and> field (user req') ''id'' = w"
    by simp
next
  show "res_status invalid_format_response = 401"
    by (simp add: invalid_format_response_def)
next
  show "field (res_json invalid_format_response) ''code'' = JStr ''INVALID_TOKEN''"
    by (simp add: invalid_format_response_def)
qed

text \<open>
  The claim as first stated fails on version 1.4: a token that verifies and carries only
  an \<open>email\<close> is accepted, \<open>req.user.id\<close> is \<open>undefined\<close>, and the request is
  forwarded.
\<close>

theorem identity_id_resolution_counterexample:
  "verify_bearer sample_verify ''Bearer tok-anon'' ''s3cret''
     = Inr (JObj [(''email'', JStr ''nobody@example.org'')])
   \<and> authenticate_v14 sample_verify ''s3cret''
        (sample_request ''/schools'' [(''authorization'', ''Bearer tok-anon'')])
     = Next ((sample_request ''/schools'' [(''authorization'', ''Bearer tok-anon'')])
              \<lparr>user := JObj [(''id'', JUndefined), (''email'', JStr ''nobody@example.org''),
                             (''role'', JUndefined), (''schoolId'', JUndefined)]\<rparr>)
   \<and> calls (createProxyHandler_v14 sample_config sample_verify (\<lambda>c. Replies 200 JNull) True
        (sample_request ''/schools'' [(''authorization'', ''Bearer tok-anon'')]) 0 1) \<noteq> []"
proof (intro conjI)
  show v: "verify_bearer sample_verify ''Bearer tok-anon'' ''s3cret''
     = Inr (JObj [(''email'', JStr ''nobody@example.org'')])"
    by (simp add: verify_bearer_def sample_verify_def)
  show a: "authenticate_v14 sample_verify ''s3cret''
        (sample_request ''/schools'' [(''authorization'', ''Bearer tok-anon'')])
     = Next ((sample_request ''/schools'' [(''authorization'', ''Bearer tok-anon'')])
              \<lparr>user := JObj [(''id'', JUndefined), (''email'', JStr ''nobody@example.org''),
                             (''role'', JUndefined), (''schoolId'', JUndefined)]\<rparr>)"
    by (simp add: value_defs request_defs auth_defs)
  show "calls (createProxyHandler_v14 sample_config sample_verify (\<lambda>c. Replies 200 JNull) True
        (sample_request ''/schools'' [(''authorization'', ''Bearer tok-anon'')]) 0 1) \<noteq> []"
    using a by (simp add: createProxyHandler_v14_def sample_config_def calls_handleProxyRequest)
qed

theorem identity_id_resolution_witness:
  "map_of (headers (sample_request ''/api/schools'' [(''authorization'', ''Bearer tok-alice'')]))
      ''authorization'' = Some ''Bearer tok-alice''
   \<and> startsWith ''Bearer tok-alice'' ''Bearer ''
   \<and> verify_bearer sample_verify ''Bearer tok-alice'' ''s3cret''
       = Inr (JObj [(''userId'', JStr ''alice''), (''user_id'', JStr ''legacy-7''), (''role'', JStr ''teacher'')])
   \<and> \<not> nullish (JObj [(''userId'', JStr ''alice''), (''user_id'', JStr ''legacy-7''), (''role'', JStr ''teacher'')])
   \<and> \<not> isPublic_v11 (req_path (sample_request ''/api/schools'' [(''authorization'', ''Bearer tok-alice'')]))
   \<and> \<not> isPublic_v14 (req_path (sample_request ''/api/schools'' [(''authorization'', ''Bearer tok-alice'')]))
   \<and> (\<exists>req'. authenticate_v11 sample_verify ''s3cret''
                (sample_request ''/api/schools'' [(''authorization'', ''Bearer tok-alice'')]) = Next req'
              \<and> field (user req') ''id'' = JStr ''alice'')
   \<and> (\<exists>req'. authenticate_v14 sample_verify ''s3cret''
                (sample_request ''/api/schools'' [(''authorization'', ''Bearer tok-alice'')]) = Next req'
              \<and> field (user req') ''id'' = JStr ''legacy-7'')
   \<and> verify_bearer sample_verify ''Bearer tok-anon'' ''s3cret''
       = Inr (JObj [(''email'', JStr ''nobody@example.org'')])
   \<and> find truthy [field (JObj [(''email'', JStr ''nobody@example.org'')]) ''userId'',
                   field (JObj [(''email'', JStr ''nobody@example.org'')]) ''id'',
                   field (JObj [(''email'', JStr ''nobody@example.org'')]) ''user_id''] = None
   \<and> authenticate_v11 sample_verify ''s3cret''
        (sample_request ''/api/schools'' [(''authorization'', ''Bearer tok-anon'')])
       = Responded invalid_format_response
   \<and> (\<exists>req'. authenticate_v14 sample_verify ''s3cret''
                (sample_request ''/api/schools'' [(''authorization'', ''Bearer tok-anon'')]) = Next req'
              \<and> \<not> truthy (field (user req') ''id''))"
proof -
  let ?r = "sample_request ''/api/schools'' [(''authorization'', ''Bearer tok-alice'')]"
  let ?d = "JObj [(''userId'', JStr ''alice''), (''user_id'', JStr ''legacy-7''), (''role'', JStr ''teacher'')]"
  have h: "map_of (headers ?r) ''authorization'' = Some ''Bearer tok-alice''"
    by (simp add: sample_request_def)
  have b: "startsWith ''Bearer tok-alice'' ''Bearer ''"
    by (simp add: startsWith_def)
  have v: "verify_bearer sample_verify ''Bearer tok-alice'' ''s3cret'' = Inr ?d"
    by (simp add: verify_bearer_def sample_verify_def)
  have n: "\<not> nullish ?d"
    by (simp add: nullish_def)
  have p1: "\<not> isPublic_v11 (req_path ?r)"
    by (simp add: isPublic_v11_def publicPaths_v11_def req_path_def sample_request_def)
  have p4: "\<not> isPublic_v14 (req_path ?r)"
    by (simp add: isPublic_v14_def publicPaths_v14_def req_path_def sample_request_def
        toLowerCase_def lower_char_def startsWith_def)
  have f1: "find truthy [field ?d ''userId'', field ?d ''id'', field ?d ''user_id''] = Some (JStr ''alice'')"
    by simp
  have f4: "find truthy [field ?d ''user_id'', field ?d ''userId'', field ?d ''id''] = Some (JStr ''legacy-7'')"
    by simp
  from identity_id_resolution [OF h b v n, of "JStr ''alice''" "JStr ''legacy-7''"] p1 p4 f1 f4
  have alice: "(\<exists>req'. authenticate_v11 sample_verify ''s3cret'' ?r = Next req'
              \<and> field (user req') ''id'' = JStr ''alice'')
      \<and> (\<exists>req'. authenticate_v14 sample_verify ''s3cret'' ?r = Next req'
              \<and> field (user req') ''id'' = JStr ''legacy-7'')"
    by blast
  let ?r' = "sample_request ''/api/schools'' [(''authorization'', ''Bearer tok-anon'')]"
  let ?d' = "JObj [(''email'', JStr ''nobody@example.org'')]"
  have h': "map_of (headers ?r') ''authorization'' = Some ''Bearer tok-anon''"
    by (simp add: sample_request_def)
  have b': "startsWith ''Bearer tok-anon'' ''Bearer ''"
    by (simp add: startsWith_def)
  have v': "verify_bearer sample_verify ''Bearer tok-anon'' ''s3cret'' = Inr ?d'"
    by (simp add: verify_bearer_def sample_verify_def)
  have n': "\<not> nullish ?d'"
    by (simp add: nullish_def)
  have q1: "\<not> isPublic_v11 (req_path ?r')"
    by (simp add: isPublic_v11_def publicPaths_v11_def req_path_def sample_request_def)
  have q4: "\<not> isPublic_v14 (req_path ?r')"
    by (simp add: isPublic_v14_def publicPaths_v14_def req_path_def sample_request_def
        toLowerCase_def lower_char_def startsWith_def)
  have g1: "find truthy [field ?d' ''userId'', field ?d' ''id'', field ?d' ''user_id''] = None"
    by simp
  have g4: "find truthy [field ?d' ''user_id'', field ?d' ''userId'', field ?d' ''id''] = None"
    by simp
  from identity_id_resolution [OF h' b' v' n'] q1 q4 g1 g4
  have anon: "authenticate_v11 sample_verify ''s3cret'' ?r' = Responded invalid_format_response
      \<and> (\<exists>req'. authenticate_v14 sample_verify ''s3cret'' ?r' = Next req'
              \<and> \<not> truthy (field (user req') ''id''))"
    by blast
  from alice anon h b v n p1 p4 v' g1 show ?thesis
    by (intro conjI) (elim conjE, assumption)+
qed

section \<open>Upstream timeouts\<close>

lemma proxyRequest_rejected:
  assumes "axios (proxyRequest_call cfg req) (upstream (proxyRequest_call cfg req)) = Rejected e"
  shows "sent (proxyRequest cfg upstream req) = Some (backend_error_v11 req)"
  using assms by (simp add: proxyRequest_def Let_def)

lemma handleProxyRequest_no_reply:
  assumes "upstream (handleProxyRequest_call cfg req t0) = NoReply"
  shows "sent (handleProxyRequest cfg upstream req t0 t1) = Some (backend_timeout_v14 req)"
proof -
  have "ax_timeout (handleProxyRequest_call cfg req t0) \<noteq> 0"
    by (simp add: handleProxyRequest_call_def axiosInstance_timeout_def)
  then have "\<exists>m. axios (handleProxyRequest_call cfg req t0) NoReply
     = Rejected \<lparr>error_code = Some ''ECONNABORTED'', error_response = None, error_message = m\<rparr>"
    by (simp add: axios_def settle_def)
  with assms show ?thesis
    by (auto simp add: handleProxyRequest_def Let_def)
qed

text \<open>
  C5, as amended. The forwarder of gateway.js version 1.4 (\<open>handleProxyRequest\<close>) calls
  the upstream with a timeout of 10000 ms, and when the upstream does not answer within
  it the client receives status 504 with the body
  \<open>{success: false, error: 'Backend timeout', code: 'BACKEND_TIMEOUT', path}\<close>, where
  \<open>path\<close> is the request's original URL. The forwarder of version 1.1
  (\<open>proxyRequest\<close>) sets no timeout: while the upstream stays silent no response is
  sent, and every failed upstream call is answered with status 502 and code
  \<open>BACKEND_ERROR\<close>.
\<close>

theorem upstream_timeout_reported:
  "ax_timeout (handleProxyRequest_call cfg req t0) = 10000
   \<and> (upstream (handleProxyRequest_call cfg req t0) = NoReply \<longrightarrow>
        sent (handleProxyRequest cfg upstream req t0 t1)
          = Some \<lparr>res_status = 504,
                   res_json = JObj [(''success'', JBool False),
                                    (''error'', JStr ''Backend timeout''),
                                    (''code'', JStr ''BACKEND_TIMEOUT''),
                                    (''path'', JStr (originalUrl req))]\<rparr>)
   \<and> ax_timeout (proxyRequest_call cfg req) = 0
   \<and> (upstream (proxyRequest_call cfg req) = NoReply \<longrightarrow>
        sent (proxyRequest cfg upstream req) = None)
   \<and> (axios (proxyRequest_call cfg req) (upstream (proxyRequest_call cfg req)) = Rejected e \<longrightarrow>
        sent (proxyRequest cfg upstream req)
          = Some \<lparr>res_status = 502,
                   res_json = JObj [(''success'', JBool False),
                                    (''error'', JStr ''Backend service unavailable''),
                                    (''code'', JStr ''BACKEND_ERROR''),
                                    (''path'', JStr (originalUrl req))]\<rparr>)"
proof (intro conjI impI)
  show "ax_timeout (handleProxyRequest_call cfg req t0) = 10000"
    by (simp add: handleProxyRequest_call_def axiosInstance_timeout_def)
next
  assume "upstream (handleProxyRequest_call cfg req t0) = NoReply"
  then show "sent (handleProxyRequest cfg upstream req t0 t1)
          = Some \<lparr>res_status = 504,
                   res_json = JObj [(''success'', JBool False),
                                    (''error'', JStr ''Backend timeout''),
                                    (''code'', JStr ''BACKEND_TIMEOUT''),
                                    (''path'', JStr (originalUrl req))]\<rparr>"
    by (simp add: handleProxyRequest_no_reply backend_timeout_v14_def)
next
  show "ax_timeout (proxyRequest_call cfg req) = 0"
    by (simp add: proxyRequest_call_def)
next
  assume "upstream (proxyRequest_call cfg req) = NoReply"
  then show "sent (proxyRequest cfg upstream req) = None"
    by (simp add: proxyRequest_def Let_def axios_def settle_def proxyRequest_call_def)
next
  assume "axios (proxyRequest_call cfg req) (upstream (proxyRequest_call cfg req)) = Rejected e"
  then show "sent (proxyRequest cfg upstream req)
          = Some \<lparr>res_status = 502,
                   res_json = JObj [(''success'', JBool False),
                                    (''error'', JStr ''Backend service unavailable''),
                                    (''code'', JStr ''BACKEND_ERROR''),
                                    (''path'', JStr (originalUrl req))]\<rparr>"
    by (simp add: proxyRequest_rejected backend_error_v11_def)
qed

text \<open>
  The claim as first stated fails on \<open>proxyRequest\<close>: its call carries no timeout, a
  silent upstream gets no 504, and a call that fails with the timeout code
  \<open>ECONNABORTED\<close> is answered 502 \<open>BACKEND_ERROR\<close>.
\<close>

theorem upstream_timeout_reported_counterexample:
  "ax_timeout (proxyRequest_call sample_config (sample_request ''/api/reports'' [])) = 0
   \<and> sent (proxyRequest sample_config (\<lambda>c. NoReply) (sample_request ''/api/reports'' [])) = None
   \<and> sent (proxyRequest sample_config (\<lambda>c. Fails ''ECONNABORTED'' ''timeout of 10000ms exceeded'')
             (sample_request ''/api/reports'' []))
       = Some \<lparr>res_status = 502,
                res_json = JObj [(''success'', JBool False),
                                 (''error'', JStr ''Backend service unavailable''),
                                 (''code'', JStr ''BACKEND_ERROR''),
                                 (''path'', JStr ''/api/reports'')]\<rparr>"
  by (simp add: proxyRequest_def Let_def axios_def settle_def proxyRequest_call_def backend_error_v11_def
      sample_request_def)

theorem upstream_timeout_reported_witness:
  "sent (handleProxyRequest sample_config (\<lambda>c. NoReply) (sample_request ''/schools/7'' []) 1000 11000)
       = Some \<lparr>res_status = 504,
                res_json = JObj [(''success'', JBool False),
                                 (''error'', JStr ''Backend timeout''),
                                 (''code'', JStr ''BACKEND_TIMEOUT''),
                                 (''path'', JStr ''/schools/7'')]\<rparr>
   \<and> sent (proxyRequest sample_config (\<lambda>c. NoReply) (sample_request ''/schools/7'' [])) = None
   \<and> axios (proxyRequest_call sample_config (sample_request ''/schools/7'' []))
          (Fails ''ECONNREFUSED'' ''connect ECONNREFUSED'')
       = Rejected \<lparr>error_code = Some ''ECONNREFUSED'', error_response = None,
                    error_message = ''connect ECONNREFUSED''\<rparr>
   \<and> sent (proxyRequest sample_config (\<lambda>c. Fails ''ECONNREFUSED'' ''connect ECONNREFUSED'')
             (sample_request ''/schools/7'' []))
       = Some \<lparr>res_status = 502,
                res_json = JObj [(''success'', JBool False),
                                 (''error'', JStr ''Backend service unavailable''),
                                 (''code'', JStr ''BACKEND_ERROR''),
                                 (''path'', JStr ''/schools/7'')]\<rparr>"
proof -
  let ?r = "sample_request ''/schools/7'' []"
  have o: "originalUrl ?r = ''/schools/7''"
    by (simp add: sample_request_def)
  have a: "axios (proxyRequest_call sample_config ?r) (Fails ''ECONNREFUSED'' ''connect ECONNREFUSED'')
       = Rejected \<lparr>error_code = Some ''ECONNREFUSED'', error_response = None,
                    error_message = ''connect ECONNREFUSED''\<rparr>"
    by (simp add: axios_def settle_def)
  from upstream_timeout_reported [of sample_config ?r 1000 "\<lambda>c. NoReply" 11000]
    upstream_timeout_reported [of sample_config ?r 1000 "\<lambda>c. Fails ''ECONNREFUSED'' ''connect ECONNREFUSED''" 11000
       "\<lparr>error_code = Some ''ECONNREFUSED'', error_response = None,
                    error_message = ''connect ECONNREFUSED''\<rparr>"]
    a o
  show ?thesis by simp
qed

section \<open>The health endpoint's status\<close>

lemma follow_redirects_settles:
  "ax_timeout call \<noteq> 0 \<Longrightarrow> follow_redirects n call up \<noteq> Pending"
  by (induction up arbitrary: n) (auto simp add: settle_def split: nat.splits)

lemma health_v11_always_200:
  "\<exists>b. health_v11 cfg upstream now clients node_env = Some \<lparr>res_status = 200, res_json = b\<rparr>"
proof -
  let ?call = "health_call cfg 3000"
  have "ax_timeout ?call \<noteq> 0"
    by (simp add: health_call_def)
  then have "axios ?call (upstream ?call) \<noteq> Pending"
    by (simp add: axios_def follow_redirects_settles)
  then show ?thesis
    by (cases "axios ?call (upstream ?call)") (simp_all add: health_v11_def Let_def)
qed

lemma health_v11_body:
  "health_v11 cfg upstream now clients node_env = Some r \<Longrightarrow>
     res_status r = 200
     \<and> (case axios (health_call cfg 3000) (upstream (health_call cfg 3000)) of
          Resolved s d \<Rightarrow>
            field (res_json r) ''status'' = JStr ''healthy''
            \<and> field (res_json r) ''backend'' = JStr ''connected''
        | _ \<Rightarrow>
            field (res_json r) ''status'' = JStr ''degraded''
            \<and> field (res_json r) ''backend'' = JStr ''disconnected'')"
  by (cases "axios (health_call cfg 3000) (upstream (health_call cfg 3000))")
     (auto simp add: health_v11_def Let_def)

text \<open>
  C6. In echo (1).js the health endpoint answers 503 when the probe of the backend fails,
  with \<open>backend\<close> set to the backend's URL; the gateway's own status depends on the
  upstream. (In gateway.js version 1.1 the status is 200 in every case, with
  \<open>healthy\<close>/\<open>connected\<close> or \<open>degraded\<close>/\<open>disconnected\<close> in the body: lemmas
  \<open>health_v11_always_200\<close> and \<open>health_v11_body\<close>.)
\<close>

theorem health_v10_reports_503:
  "health_v10 sample_config (\<lambda>c. Fails ''ECONNREFUSED'' ''connect ECONNREFUSED'')
      ''2026-01-01T00:00:00.000Z'' 0 None
    = Some \<lparr>res_status = 503,
             res_json = JObj [(''success'', JBool False),
                              (''service'', JStr ''Echo Gateway''),
                              (''status'', JStr ''degraded''),
                              (''error'', JStr ''Backend unreachable''),
                              (''backend'', JStr ''http://backend.internal'')]\<rparr>"
  by (simp add: health_v10_def Let_def axios_def settle_def sample_config_def)

section \<open>Classifying a path as public\<close>

text \<open>
  C7. In gateway.js version 1.4 the path \<open>/healthz-0123456789\<close> is not in the
  allow-list and is not a subpath of \<open>/health\<close>, yet \<open>authenticate\<close> lets it pass:
  the test next to the comment \<open>Exact match for public routes\<close> is
  \<open>requestPath.startsWith('/health')\<close>. No fixed route matches the path; the route
  \<open>/:schoolId*\<close> takes it, since its first segment is longer than 10 characters, and
  calls \<open>createProxyHandler(true)\<close>, which forwards the request to the upstream
  although it carries no \<open>Authorization\<close> header. A path of the same shape that does
  not begin with \<open>/health\<close>, \<open>/reports-0123456789\<close>, is answered 401 with code
  \<open>NO_TOKEN\<close> and not forwarded.
\<close>

theorem health_prefix_admits_non_subpath:
  "''/healthz-0123456789'' \<notin> set publicPaths_v14
   \<and> isPublic_v14 ''/healthz-0123456789''
   \<and> schoolId_route_v14 sample_config sample_verify
        (\<lambda>c. Replies 200 (JObj [(''students'', JArr [])]))
        (sample_request ''/healthz-0123456789'' []) 0 5
      = Some \<lparr>sent = Some \<lparr>res_status = 200, res_json = JObj [(''students'', JArr [])]\<rparr>,
               calls = [handleProxyRequest_call sample_config
                          (sample_request ''/healthz-0123456789'' []) 0]\<rparr>
   \<and> schoolId_route_v14 sample_config sample_verify
        (\<lambda>c. Replies 200 (JObj [(''students'', JArr [])]))
        (sample_request ''/reports-0123456789'' []) 0 5
      = Some \<lparr>sent = Some no_token_response, calls = []\<rparr>"
proof (intro conjI)
  let ?up = "\<lambda>c::axios_request. Replies 200 (JObj [(''students'', JArr [])])"
  let ?h = "sample_request ''/healthz-0123456789'' []"
  let ?p = "sample_request ''/reports-0123456789'' []"
  show "''/healthz-0123456789'' \<notin> set publicPaths_v14"
    by (simp add: publicPaths_v14_def)
  show pub: "isPublic_v14 ''/healthz-0123456789''"
    by (simp add: isPublic_v14_def publicPaths_v14_def toLowerCase_def lower_char_def
        startsWith_def)
  have ph: "req_path ?h = ''/healthz-0123456789''"
    by (simp add: req_path_def sample_request_def)
  have sh: "params_schoolId ?h = ''healthz-0123456789''"
    by (simp add: params_schoolId_def ph)
  from pub ph have "authenticate_v14 sample_verify (JWT_SECRET sample_config) ?h = Next ?h"
    by (simp add: authenticate_v14_def)
  moreover have "handleProxyRequest sample_config ?up ?h 0 5
      = \<lparr>sent = Some \<lparr>res_status = 200, res_json = JObj [(''students'', JArr [])]\<rparr>,
         calls = [handleProxyRequest_call sample_config ?h 0]\<rparr>"
    using sent_handleProxyRequest_replies [of ?up sample_config ?h 0 200
        "JObj [(''students'', JArr [])]" 5]
      calls_handleProxyRequest [of sample_config ?up ?h 0 5]
    by (cases "handleProxyRequest sample_config ?up ?h 0 5") simp
  ultimately show "schoolId_route_v14 sample_config sample_verify ?up ?h 0 5
      = Some \<lparr>sent = Some \<lparr>res_status = 200, res_json = JObj [(''students'', JArr [])]\<rparr>,
               calls = [handleProxyRequest_call sample_config ?h 0]\<rparr>"
    by (simp add: schoolId_route_v14_def sh createProxyHandler_v14_def)
  have pp: "req_path ?p = ''/reports-0123456789''"
    by (simp add: req_path_def sample_request_def)
  have sp: "params_schoolId ?p = ''reports-0123456789''"
    by (simp add: params_schoolId_def pp)
  have "\<not> isPublic_v14 (req_path ?p)"
    by (simp add: pp isPublic_v14_def publicPaths_v14_def toLowerCase_def lower_char_def
        startsWith_def)
  moreover have "map_of (headers ?p) ''authorization'' = None"
    by (simp add: sample_request_def)
  ultimately have "authenticate_v14 sample_verify (JWT_SECRET sample_config) ?p
      = Responded no_token_response"
    by (simp add: authenticate_v14_no_bearer)
  then show "schoolId_route_v14 sample_config sample_verify ?up ?p 0 5
      = Some \<lparr>sent = Some no_token_response, calls = []\<rparr>"
    by (simp add: schoolId_route_v14_def sp createProxyHandler_v14_def)
qed

section \<open>Ping and pong\<close>

text \<open>
  C8, as amended. In gateway.js (version 1.1) an open session that receives a parseable
  frame whose \<open>type\<close> is \<open>ping\<close> is sent exactly one frame, on its own socket:
  \<open>{type: 'pong', timestamp}\<close> with the current time; nothing else is sent and the
  registry is unchanged. In echo (1).js a session has no \<open>message\<close> listener: no
  frame is ever sent in reply to an inbound frame. In echo.js a frame of type \<open>ping\<close>
  is handed to \<open>handleChatMessage\<close>, which relays private messages only: nothing is
  sent.
\<close>

theorem ping_answered_with_one_pong:
  "(field message ''type'' = JStr ''ping'' \<longrightarrow>
      on_message_v11 now sock (Some message) S
        = S\<lparr>frames := frames S @ [(sock, JObj [(''type'', JStr ''pong''), (''timestamp'', JStr now)])]\<rparr>)
   \<and> on_message_v10 now sock parsed S = S
   \<and> (field message ''type'' = JStr ''ping'' \<longrightarrow>
      on_message_echo now sock userId (Some message) S = S)"
proof (intro conjI impI)
  assume t: "field message ''type'' = JStr ''ping''"
  then have "\<not> nullish message"
    by (auto simp add: nullish_def)
  with t show "on_message_v11 now sock (Some message) S
        = S\<lparr>frames := frames S @ [(sock, JObj [(''type'', JStr ''pong''), (''timestamp'', JStr now)])]\<rparr>"
    by (simp add: on_message_v11_def send_def)
next
  assume t: "field message ''type'' = JStr ''ping''"
  then have "\<not> nullish message"
    by (auto simp add: nullish_def)
  with t show "on_message_echo now sock userId (Some message) S = S"
    by (simp add: on_message_echo_def handleChatMessage_def Let_def)
next
  show "on_message_v10 now sock parsed S = S"
    by (simp add: on_message_v10_def)
qed

text \<open>
  The claim as first stated fails on echo (1).js: a session opened there answers a ping
  with nothing.
\<close>

theorem ping_answered_with_one_pong_counterexample:
  "connection_v10 sample_verify ''s3cret'' 1 (Some ''tok-alice'') ws_initial
     = (\<lparr>activeConnections = [(''alice'', 1)], frames = [], closes = []\<rparr>, Some (JStr ''alice''))
   \<and> frames (on_message_v10 ''2026-01-01T00:00:00.000Z'' 1 (Some (JObj [(''type'', JStr ''ping'')]))
               \<lparr>activeConnections = [(''alice'', 1)], frames = [], closes = []\<rparr>) = []"
  by (simp add: connection_v10_def on_message_v10_def sample_verify_def ws_initial_def
      nullish_def js_or_def toString_def)

theorem ping_answered_with_one_pong_witness:
  "connection_v11 sample_verify ''s3cret'' 1 (Some ''tok-alice'') ws_initial
     = (\<lparr>activeConnections = [(''alice'', 1)], frames = [], closes = []\<rparr>, Some (JStr ''alice''))
   \<and> field (JObj [(''type'', JStr ''ping''), (''seq'', JNum 3)]) ''type'' = JStr ''ping''
   \<and> on_message_v11 ''2026-01-01T00:00:00.000Z'' 1 (Some (JObj [(''type'', JStr ''ping''), (''seq'', JNum 3)]))
        \<lparr>activeConnections = [(''alice'', 1)], frames = [], closes = []\<rparr>
     = \<lparr>activeConnections = [(''alice'', 1)],
        frames = [(1, JObj [(''type'', JStr ''pong''), (''timestamp'', JStr ''2026-01-01T00:00:00.000Z'')])],
        closes = []\<rparr>
   \<and> on_message_echo ''2026-01-01T00:00:00.000Z'' 1 (JStr ''alice'')
        (Some (JObj [(''type'', JStr ''ping''), (''seq'', JNum 3)]))
        \<lparr>activeConnections = [(''alice'', 1)], frames = [], closes = []\<rparr>
     = \<lparr>activeConnections = [(''alice'', 1)], frames = [], closes = []\<rparr>"
proof -
  have c: "connection_v11 sample_verify ''s3cret'' 1 (Some ''tok-alice'') ws_initial
     = (\<lparr>activeConnections = [(''alice'', 1)], frames = [], closes = []\<rparr>, Some (JStr ''alice''))"
    by (simp add: connection_v11_def sample_verify_def ws_initial_def nullish_def js_or_def toString_def)
  have f: "field (JObj [(''type'', JStr ''ping''), (''seq'', JNum 3)]) ''type'' = JStr ''ping''"
    by simp
  from ping_answered_with_one_pong [where message = "JObj [(''type'', JStr ''ping''), (''seq'', JNum 3)]"
      and now = "''2026-01-01T00:00:00.000Z''" and sock = 1 and userId = "JStr ''alice''"
      and S = "\<lparr>activeConnections = [(''alice'', 1)], frames = [], closes = []\<rparr>"] c f
  show ?thesis by simp
qed

section \<open>Relaying private messages\<close>

lemma handleChatMessage_private:
  assumes "field message ''type'' = JStr ''private''"
    and "truthy (field message ''receiverId'')"
  shows "handleChatMessage now senderId message S =
     Some (case map_of (activeConnections S) (toString (field message ''receiverId'')) of
             None \<Rightarrow> S
           | Some receiverWs \<Rightarrow>
               send receiverWs (JObj [(''type'', JStr ''message''),
                                      (''senderId'', senderId),
                                      (''content'', field message ''content''),
                                      (''timestamp'', JStr now)]) S)"
proof -
  from assms(1) have "\<not> nullish message"
    by (auto simp add: nullish_def)
  with assms show ?thesis
    by (simp add: handleChatMessage_def Let_def)
qed

text \<open>
  C9. In echo.js, take an inbound frame that parses to a message of type \<open>private\<close> with
  a (truthy) \<open>receiverId\<close>. If a socket is registered under the string form of that id,
  exactly one frame is sent, to that socket: \<open>{type: 'message', senderId, content,
  timestamp}\<close> with the sender's id, the message's content and the current time. If none
  is registered, the state is unchanged: no frame is sent to anyone, and no error frame
  either. In both cases \<open>handleChatMessage\<close> returns normally.
\<close>

theorem private_message_relay:
  assumes "field message ''type'' = JStr ''private''"
    and "truthy (field message ''receiverId'')"
  shows
    "(map_of (activeConnections S) (toString (field message ''receiverId'')) = Some receiverWs \<longrightarrow>
        on_message_echo now sock senderId (Some message) S
          = S\<lparr>frames := frames S @
                 [(receiverWs, JObj [(''type'', JStr ''message''),
                                     (''senderId'', senderId),
                                     (''content'', field message ''content''),
                                     (''timestamp'', JStr now)])]\<rparr>)
     \<and> (map_of (activeConnections S) (toString (field message ''receiverId'')) = None \<longrightarrow>
        on_message_echo now sock senderId (Some message) S = S)
     \<and> handleChatMessage now senderId message S
          = Some (on_message_echo now sock senderId (Some message) S)"
proof -
  note h = handleChatMessage_private [OF assms, of now senderId S]
  show ?thesis
  proof (intro conjI impI)
    assume "map_of (activeConnections S) (toString (field message ''receiverId'')) = Some receiverWs"
    with h show "on_message_echo now sock senderId (Some message) S
          = S\<lparr>frames := frames S @
                 [(receiverWs, JObj [(''type'', JStr ''message''),
                                     (''senderId'', senderId),
                                     (''content'', field message ''content''),
                                     (''timestamp'', JStr now)])]\<rparr>"
      by (simp add: on_message_echo_def send_def)
  next
    assume "map_of (activeConnections S) (toString (field message ''receiverId'')) = None"
    with h show "on_message_echo now sock senderId (Some message) S = S"
      by (simp add: on_message_echo_def)
  next
    from h show "handleChatMessage now senderId message S
          = Some (on_message_echo now sock senderId (Some message) S)"
      by (simp add: on_message_echo_def)
  qed
qed

theorem private_message_relay_witness:
  "field (JObj [(''type'', JStr ''private''), (''receiverId'', JNum 7), (''content'', JStr ''hello'')])
      ''type'' = JStr ''private''
   \<and> truthy (field (JObj [(''type'', JStr ''private''), (''receiverId'', JNum 7), (''content'', JStr ''hello'')])
               ''receiverId'')
   \<and> map_of [(''alice'', 1), (''7'', 2)] (toString (JNum 7)) = Some 2
   \<and> on_message_echo ''2026-01-01T00:00:00.000Z'' 1 (JStr ''alice'')
        (Some (JObj [(''type'', JStr ''private''), (''receiverId'', JNum 7), (''content'', JStr ''hello'')]))
        \<lparr>activeConnections = [(''alice'', 1), (''7'', 2)], frames = [], closes = []\<rparr>
      = \<lparr>activeConnections = [(''alice'', 1), (''7'', 2)],
         frames = [(2, JObj [(''type'', JStr ''message''), (''senderId'', JStr ''alice''),
                             (''content'', JStr ''hello''),
                             (''timestamp'', JStr ''2026-01-01T00:00:00.000Z'')])],
         closes = []\<rparr>
   \<and> map_of [(''alice'', 1)] (toString (JNum 7)) = None
   \<and> on_message_echo ''2026-01-01T00:00:00.000Z'' 1 (JStr ''alice'')
        (Some (JObj [(''type'', JStr ''private''), (''receiverId'', JNum 7), (''content'', JStr ''hello'')]))
        \<lparr>activeConnections = [(''alice'', 1)], frames = [], closes = []\<rparr>
      = \<lparr>activeConnections = [(''alice'', 1)], frames = [], closes = []\<rparr>"
proof -
  let ?m = "JObj [(''type'', JStr ''private''), (''receiverId'', JNum 7), (''content'', JStr ''hello'')]"
  let ?S1 = "\<lparr>activeConnections = [(''alice'', 1), (''7'', 2)], frames = [], closes = []\<rparr>"
  let ?S2 = "\<lparr>activeConnections = [(''alice'', 1)], frames = [], closes = []\<rparr>"
  have t: "field ?m ''type'' = JStr ''private''"
    by simp
  have r: "truthy (field ?m ''receiverId'')"
    by simp
  have k: "toString (JNum 7) = ''7''"
    by (simp add: toString_def int_digits_def nat_digits.simps digit_char_def)
  have f: "field ?m ''receiverId'' = JNum 7" "field ?m ''content'' = JStr ''hello''"
    by simp_all
  from private_message_relay [OF t r, of ?S1 2 "''2026-01-01T00:00:00.000Z''" 1 "JStr ''alice''"]
    private_message_relay [OF t r, of ?S2 2 "''2026-01-01T00:00:00.000Z''" 1 "JStr ''alice''"]
    t r
  show ?thesis
    by (simp add: k f)
qed

section \<open>The connection registry\<close>

lemma connections_broadcastOnlineUsers [simp]:
  "activeConnections (broadcastOnlineUsers now S) = activeConnections S"
  by (simp add: broadcastOnlineUsers_def Let_def)

lemma connections_send [simp]: "activeConnections (send sock frame S) = activeConnections S"
  by (simp add: send_def)

lemma connections_close [simp]: "activeConnections (close sock code reason S) = activeConnections S"
  by (simp add: close_def)

lemma connection_echo_registers:
  assumes "connection_echo verify secret now1 now2 sock token S = (S', Some userId)"
  shows "activeConnections S' = AList.update (toString userId) sock (activeConnections S)"
  using assms
  by (auto simp add: connection_echo_def Let_def split: option.splits sum.splits if_splits)

lemma connection_echo_refuses:
  assumes "connection_echo verify secret now1 now2 sock token S = (S', None)"
  shows "activeConnections S' = activeConnections S"
  using assms
  by (auto simp add: connection_echo_def Let_def split: option.splits sum.splits if_splits)

lemma connection_v11_registers:
  assumes "connection_v11 verify secret sock token S = (S', Some userId)"
  shows "activeConnections S' = AList.update (toString userId) sock (activeConnections S)"
  using assms
  by (auto simp add: connection_v11_def Let_def split: option.splits sum.splits if_splits)

lemma connection_v11_refuses:
  assumes "connection_v11 verify secret sock token S = (S', None)"
  shows "activeConnections S' = activeConnections S"
  using assms
  by (auto simp add: connection_v11_def Let_def split: option.splits sum.splits if_splits)

lemma connections_handleChatMessage:
  "handleChatMessage now senderId message S = Some S' \<Longrightarrow> activeConnections S' = activeConnections S"
  by (auto simp add: handleChatMessage_def Let_def split: option.splits if_splits)

lemma connections_on_message_echo [simp]:
  "activeConnections (on_message_echo now sock userId parsed S) = activeConnections S"
  by (auto simp add: on_message_echo_def connections_handleChatMessage split: option.splits)

lemma connections_on_message_v11 [simp]:
  "activeConnections (on_message_v11 now sock parsed S) = activeConnections S"
  by (simp add: on_message_v11_def split: option.splits)

lemma connections_on_close_echo [simp]:
  "activeConnections (on_close_echo now userId S) = AList.delete (toString userId) (activeConnections S)"
  by (simp add: on_close_echo_def)

lemma connections_on_close_v11 [simp]:
  "activeConnections (on_close_v11 userId S) = AList.delete (toString userId) (activeConnections S)"
  by (simp add: on_close_v11_def)

lemma step_echo_distinct:
  assumes "distinct (map fst (activeConnections S))"
  shows "distinct (map fst (activeConnections (step_echo verify secret S e)))"
proof (cases e)
  case (Upgrade sock token now1 now2)
  obtain S' r where c: "connection_echo verify secret now1 now2 sock token S = (S', r)"
    by (cases "connection_echo verify secret now1 now2 sock token S")
  show ?thesis
  proof (cases r)
    case None
    with c assms Upgrade show ?thesis
      by (simp add: connection_echo_refuses)
  next
    case (Some userId)
    with c assms Upgrade show ?thesis
      by (simp add: connection_echo_registers distinct_update)
  qed
next
  case (Frame sock userId parsed now)
  with assms show ?thesis by simp
next
  case (Closed userId now)
  with assms show ?thesis by (simp add: distinct_delete)
qed

lemma step_v11_distinct:
  assumes "distinct (map fst (activeConnections S))"
  shows "distinct (map fst (activeConnections (step_v11 verify secret S e)))"
proof (cases e)
  case (Upgrade sock token now1 now2)
  obtain S' r where c: "connection_v11 verify secret sock token S = (S', r)"
    by (cases "connection_v11 verify secret sock token S")
  show ?thesis
  proof (cases r)
    case None
    with c assms Upgrade show ?thesis
      by (simp add: connection_v11_refuses)
  next
    case (Some userId)
    with c assms Upgrade show ?thesis
      by (simp add: connection_v11_registers distinct_update)
  qed
next
  case (Frame sock userId parsed now)
  with assms show ?thesis by simp
next
  case (Closed userId now)
  with assms show ?thesis by (simp add: distinct_delete)
qed

lemma foldl_step_echo_distinct:
  "distinct (map fst (activeConnections S)) \<Longrightarrow>
   distinct (map fst (activeConnections (foldl (step_echo verify secret) S events)))"
  by (induction events arbitrary: S) (simp_all add: step_echo_distinct)

lemma foldl_step_v11_distinct:
  "distinct (map fst (activeConnections S)) \<Longrightarrow>
   distinct (map fst (activeConnections (foldl (step_v11 verify secret) S events)))"
  by (induction events arbitrary: S) (simp_all add: step_v11_distinct)

lemma toString_5: "toString (JNum 5) = ''5'' \<and> toString (JStr ''5'') = ''5''"
  by (simp add: toString_def int_digits_def nat_digits.simps digit_char_def)

text \<open>
  C10, as amended. In echo.js and in gateway.js (version 1.1) every operation on
  \<open>activeConnections\<close> uses the key \<open>userId.toString()\<close>:
  \<^item> after any sequence of upgrades, frames and closes the keys of the registry are
    pairwise distinct (at most one socket per string-rendered id);
  \<^item> a successful upgrade stores its socket under \<open>toString userId\<close>, and a second
    successful upgrade whose id renders to the same string leaves the registry as if only
    the second had happened (the later registration overwrites the earlier);
  \<^item> the private relay looks the receiver up under \<open>toString receiverId\<close>;
  \<^item> a close deletes the entry stored under \<open>toString userId\<close>, whichever socket it
    holds at that moment, and touches no other key;
  \<^item> the number 5 and the string \<open>5\<close> render to the same key.
\<close>

theorem registry_keyed_by_string_id:
  "distinct (map fst (activeConnections (run_echo verify secret events)))
   \<and> distinct (map fst (activeConnections (run_v11 verify secret events)))
   \<and> (connection_echo verify secret now1 now2 sock token S = (S1, Some userId) \<longrightarrow>
        activeConnections S1 = AList.update (toString userId) sock (activeConnections S)
        \<and> map_of (activeConnections S1) (toString userId) = Some sock
        \<and> (connection_echo verify secret now1' now2' sock' token' S1 = (S2, Some userId')
             \<and> toString userId' = toString userId \<longrightarrow>
            activeConnections S2 = AList.update (toString userId) sock' (activeConnections S)))
   \<and> (connection_v11 verify secret sock token S = (S1, Some userId) \<longrightarrow>
        activeConnections S1 = AList.update (toString userId) sock (activeConnections S)
        \<and> map_of (activeConnections S1) (toString userId) = Some sock
        \<and> (connection_v11 verify secret sock' token' S1 = (S2, Some userId')
             \<and> toString userId' = toString userId \<longrightarrow>
            activeConnections S2 = AList.update (toString userId) sock' (activeConnections S)))
   \<and> (field message ''type'' = JStr ''private'' \<and> truthy (field message ''receiverId'') \<longrightarrow>
        handleChatMessage now senderId message S =
          Some (case map_of (activeConnections S) (toString (field message ''receiverId'')) of
                  None \<Rightarrow> S
                | Some receiverWs \<Rightarrow>
                    send receiverWs (JObj [(''type'', JStr ''message''),
                                           (''senderId'', senderId),
                                           (''content'', field message ''content''),
                                           (''timestamp'', JStr now)]) S))
   \<and> activeConnections (on_close_echo now userId S) = AList.delete (toString userId) (activeConnections S)
   \<and> map_of (activeConnections (on_close_echo now userId S))
       = (map_of (activeConnections S)) (toString userId := None)
   \<and> activeConnections (on_close_v11 userId S) = AList.delete (toString userId) (activeConnections S)
   \<and> map_of (activeConnections (on_close_v11 userId S))
       = (map_of (activeConnections S)) (toString userId := None)
   \<and> toString (JNum 5) = toString (JStr ''5'')"
proof (intro conjI impI)
  show "distinct (map fst (activeConnections (run_echo verify secret events)))"
    by (simp add: run_echo_def ws_initial_def foldl_step_echo_distinct)
next
  show "distinct (map fst (activeConnections (run_v11 verify secret events)))"
    by (simp add: run_v11_def ws_initial_def foldl_step_v11_distinct)
next
  assume "connection_echo verify secret now1 now2 sock token S = (S1, Some userId)"
  then show "activeConnections S1 = AList.update (toString userId) sock (activeConnections S)"
    by (rule connection_echo_registers)
next
  assume "connection_echo verify secret now1 now2 sock token S = (S1, Some userId)"
  then show "map_of (activeConnections S1) (toString userId) = Some sock"
    by (simp add: connection_echo_registers update_conv')
next
  assume a: "connection_echo verify secret now1 now2 sock token S = (S1, Some userId)"
    and b: "connection_echo verify secret now1' now2' sock' token' S1 = (S2, Some userId')
             \<and> toString userId' = toString userId"
  from b have c: "connection_echo verify secret now1' now2' sock' token' S1 = (S2, Some userId')"
    and k: "toString userId' = toString userId"
    by simp_all
  from connection_echo_registers [OF c] k
  have "activeConnections S2 = AList.update (toString userId) sock' (activeConnections S1)"
    by simp
  with connection_echo_registers [OF a]
  show "activeConnections S2 = AList.update (toString userId) sock' (activeConnections S)"
    by simp
next
  assume "connection_v11 verify secret sock token S = (S1, Some userId)"
  then show "activeConnections S1 = AList.update (toString userId) sock (activeConnections S)"
    by (rule connection_v11_registers)
next
  assume "connection_v11 verify secret sock token S = (S1, Some userId)"
  then show "map_of (activeConnections S1) (toString userId) = Some sock"
    by (simp add: connection_v11_registers update_conv')
next
  assume a: "connection_v11 verify secret sock token S = (S1, Some userId)"
    and b: "connection_v11 verify secret sock' token' S1 = (S2, Some userId')
             \<and> toString userId' = toString userId"
  from b have c: "connection_v11 verify secret sock' token' S1 = (S2, Some userId')"
    and k: "toString userId' = toString userId"
    by simp_all
  from connection_v11_registers [OF c] k
  have "activeConnections S2 = AList.update (toString userId) sock' (activeConnections S1)"
    by simp
  with connection_v11_registers [OF a]
  show "activeConnections S2 = AList.update (toString userId) sock' (activeConnections S)"
    by simp
next
  assume "field message ''type'' = JStr ''private'' \<and> truthy (field message ''receiverId'')"
  moreover from this have "\<not> nullish message"
    by (auto simp add: nullish_def)
  ultimately show "handleChatMessage now senderId message S =
          Some (case map_of (activeConnections S) (toString (field message ''receiverId'')) of
                  None \<Rightarrow> S
                | Some receiverWs \<Rightarrow>
                    send receiverWs (JObj [(''type'', JStr ''message''),
                                           (''senderId'', senderId),
                                           (''content'', field message ''content''),
                                           (''timestamp'', JStr now)]) S)"
    by (simp add: handleChatMessage_def Let_def)
next
  show "activeConnections (on_close_echo now userId S) = AList.delete (toString userId) (activeConnections S)"
    by simp
next
  show "map_of (activeConnections (on_close_echo now userId S))
       = (map_of (activeConnections S)) (toString userId := None)"
    by (simp add: delete_conv')
next
  show "activeConnections (on_close_v11 userId S) = AList.delete (toString userId) (activeConnections S)"
    by simp
next
  show "map_of (activeConnections (on_close_v11 userId S))
       = (map_of (activeConnections S)) (toString userId := None)"
    by (simp add: delete_conv')
next
  show "toString (JNum 5) = toString (JStr ''5'')"
    by (simp add: toString_5)
qed

text \<open>
  The claim as first stated says that a close removes exactly the entry its own
  registration created. It does not when that entry has been overwritten: session 1
  registers under the number 5, session 2 under the string \<open>5\<close>, and the close of
  session 1 then deletes the entry of session 2, which is still open.
\<close>

theorem registry_keyed_by_string_id_counterexample:
  "activeConnections (run_echo sample_verify ''s3cret''
      [Upgrade 1 (Some ''tok-five'') ''t1'' ''t2'', Upgrade 2 (Some ''tok-5'') ''t3'' ''t4''])
     = [(''5'', 2)]
   \<and> activeConnections (run_echo sample_verify ''s3cret''
      [Upgrade 1 (Some ''tok-five'') ''t1'' ''t2'', Upgrade 2 (Some ''tok-5'') ''t3'' ''t4'',
       Closed (JNum 5) ''t5''])
     = []
   \<and> activeConnections (run_v11 sample_verify ''s3cret''
      [Upgrade 1 (Some ''tok-five'') ''t1'' ''t2'', Upgrade 2 (Some ''tok-5'') ''t3'' ''t4'',
       Closed (JNum 5) ''t5''])
     = []"
  by (simp add: run_echo_def run_v11_def ws_initial_def connection_echo_def connection_v11_def
      sample_verify_def nullish_def js_or_def toString_5 Let_def)

theorem registry_keyed_by_string_id_witness:
  "distinct (map fst (activeConnections (run_echo sample_verify ''s3cret''
      [Upgrade 1 (Some ''tok-five'') ''t1'' ''t2'', Upgrade 2 (Some ''tok-alice'') ''t3'' ''t4''])))
   \<and> connection_v11 sample_verify ''s3cret'' 1 (Some ''tok-five'') ws_initial
       = (\<lparr>activeConnections = [(''5'', 1)], frames = [], closes = []\<rparr>, Some (JNum 5))
   \<and> connection_v11 sample_verify ''s3cret'' 2 (Some ''tok-5'')
         \<lparr>activeConnections = [(''5'', 1)], frames = [], closes = []\<rparr>
       = (\<lparr>activeConnections = [(''5'', 2)], frames = [], closes = []\<rparr>, Some (JStr ''5''))
   \<and> toString (JStr ''5'') = toString (JNum 5)
   \<and> activeConnections \<lparr>activeConnections = [(''5'', 2)], frames = [], closes = []\<rparr>
       = AList.update (toString (JNum 5)) 2 (activeConnections ws_initial)
   \<and> map_of (activeConnections (on_close_v11 (JStr ''5'')
         \<lparr>activeConnections = [(''5'', 2)], frames = [], closes = []\<rparr>)) ''5'' = None
   \<and> snd (connection_echo sample_verify ''s3cret'' ''t1'' ''t2'' 1 (Some ''tok-five'') ws_initial)
       = Some (JNum 5)
   \<and> map_of (activeConnections
         (fst (connection_echo sample_verify ''s3cret'' ''t1'' ''t2'' 1 (Some ''tok-five'') ws_initial)))
         (toString (JNum 5)) = Some 1
   \<and> field (JObj [(''type'', JStr ''private''), (''receiverId'', JStr ''5''), (''content'', JStr ''hi'')])
        ''type'' = JStr ''private''
   \<and> truthy (field (JObj [(''type'', JStr ''private''), (''receiverId'', JStr ''5''), (''content'', JStr ''hi'')])
        ''receiverId'')
   \<and> handleChatMessage ''t9'' (JStr ''alice'')
        (JObj [(''type'', JStr ''private''), (''receiverId'', JStr ''5''), (''content'', JStr ''hi'')])
        \<lparr>activeConnections = [(''5'', 2)], frames = [], closes = []\<rparr>
       = Some \<lparr>activeConnections = [(''5'', 2)],
               frames = [(2, JObj [(''type'', JStr ''message''), (''senderId'', JStr ''alice''),
                                   (''content'', JStr ''hi''), (''timestamp'', JStr ''t9'')])],
               closes = []\<rparr>"
proof -
  let ?S1 = "\<lparr>activeConnections = [(''5'', 1)], frames = [], closes = []\<rparr>"
  let ?S2 = "\<lparr>activeConnections = [(''5'', 2)], frames = [], closes = []\<rparr>"
  have a: "connection_v11 sample_verify ''s3cret'' 1 (Some ''tok-five'') ws_initial = (?S1, Some (JNum 5))"
    by (simp add: connection_v11_def sample_verify_def ws_initial_def nullish_def js_or_def toString_5)
  have b: "connection_v11 sample_verify ''s3cret'' 2 (Some ''tok-5'') ?S1 = (?S2, Some (JStr ''5''))"
    by (simp add: connection_v11_def sample_verify_def nullish_def js_or_def toString_5)
  have k: "toString (JStr ''5'') = toString (JNum 5)"
    by (simp add: toString_5)
  note t = registry_keyed_by_string_id [where verify = sample_verify and secret = "''s3cret''"
      and events = "[Upgrade 1 (Some ''tok-five'') ''t1'' ''t2'', Upgrade 2 (Some ''tok-alice'') ''t3'' ''t4'']"
      and sock = 1 and token = "Some ''tok-five''" and S = ws_initial and ?S1.0 = ?S1
      and userId = "JNum 5" and sock' = 2 and token' = "Some ''tok-5''" and ?S2.0 = ?S2
      and userId' = "JStr ''5''"]
  from t have d: "distinct (map fst (activeConnections (run_echo sample_verify ''s3cret''
      [Upgrade 1 (Some ''tok-five'') ''t1'' ''t2'', Upgrade 2 (Some ''tok-alice'') ''t3'' ''t4''])))"
    by (rule conjunct1)
  from t a b k have u: "activeConnections ?S2 = AList.update (toString (JNum 5)) 2 (activeConnections ws_initial)"
    by presburger
  have c: "map_of (activeConnections (on_close_v11 (JStr ''5'') ?S2)) ''5'' = None"
    using registry_keyed_by_string_id [where userId = "JStr ''5''" and S = ?S2]
    by (simp add: toString_5)
  let ?E = "connection_echo sample_verify ''s3cret'' ''t1'' ''t2'' 1 (Some ''tok-five'') ws_initial"
  have e: "snd ?E = Some (JNum 5)"
    by (simp add: connection_echo_def sample_verify_def ws_initial_def nullish_def js_or_def Let_def)
  then have e': "?E = (fst ?E, Some (JNum 5))"
    by (metis prod.collapse)
  from registry_keyed_by_string_id [where verify = sample_verify and secret = "''s3cret''"
      and ?now1.0 = "''t1''" and ?now2.0 = "''t2''" and sock = 1 and token = "Some ''tok-five''"
      and S = ws_initial and ?S1.0 = "fst ?E" and userId = "JNum 5"] e'
  have m: "map_of (activeConnections (fst ?E)) (toString (JNum 5)) = Some 1"
    by blast
  let ?m = "JObj [(''type'', JStr ''private''), (''receiverId'', JStr ''5''), (''content'', JStr ''hi'')]"
  have t: "field ?m ''type'' = JStr ''private''" and r: "truthy (field ?m ''receiverId'')"
    by simp_all
  from registry_keyed_by_string_id [where message = ?m and now = "''t9''"
      and senderId = "JStr ''alice''" and S = ?S2] t r
  have l: "handleChatMessage ''t9'' (JStr ''alice'') ?m ?S2
       = Some \<lparr>activeConnections = [(''5'', 2)],
               frames = [(2, JObj [(''type'', JStr ''message''), (''senderId'', JStr ''alice''),
                                   (''content'', JStr ''hi''), (''timestamp'', JStr ''t9'')])],
               closes = []\<rparr>"
    by (simp add: toString_def send_def)
  from d a b k u c e m t r l show ?thesis
    by (intro conjI)
qed

end
